theory Spec2Isabelle
  imports Main
begin

unbundle bit_operations_syntax

section \<open>Values of the host language\<close>

text \<open>
  The template compiler of \<^verbatim>\<open>packages/core/src/template-compiler.ts\<close> is embedded
  shallowly. Strings are byte strings: a text is represented by its UTF-8 encoding, which
  is what the hash functions of the source consume.
\<close>

text \<open>
  Untyped values (\<^verbatim>\<open>any\<close>, \<^verbatim>\<open>unknown\<close>) such as the \<^verbatim>\<open>EmberENV\<close> configuration. An
  object is the list of its own enumerable properties in the order of \<^verbatim>\<open>Object.keys\<close>.
  A string value is the list of its UTF-16 code units, which is what its indices count.
\<close>

datatype jsval =
    JUndefined
  | JNull
  | JBool bool
  | JNum int
  | JStr "nat list"
  | JObj "(string \<times> jsval) list"

text \<open>Truthiness, as tested by \<^verbatim>\<open>if (v)\<close> and \<^verbatim>\<open>!v\<close>.\<close>

fun truthy :: "jsval \<Rightarrow> bool" where
  "truthy JUndefined = False"
| "truthy JNull = False"
| "truthy (JBool b) = b"
| "truthy (JNum n) = (n \<noteq> 0)"
| "truthy (JStr s) = (s \<noteq> [])"
| "truthy (JObj kvs) = True"

text \<open>Decimal rendering of a non-negative integer, as a template literal prints it.\<close>

definition digit_char :: "nat \<Rightarrow> char" where
  "digit_char d = ''0123456789'' ! d"

function show_nat :: "nat \<Rightarrow> string" where
  "show_nat n = (if n < 10 then [digit_char n] else show_nat (n div 10) @ [digit_char (n mod 10)])"
  by pat_completeness auto
termination
  by (relation "measure id") auto

declare show_nat.simps [simp del]

text \<open>
  The own enumerable properties of a value: those of an object are its properties, those
  of a string are its code units under their indices, the other primitives have none. \<^verbatim>\<open>Object.keys v\<close>
  is \<open>map fst (entries v)\<close>, and \<^verbatim>\<open>v[k]\<close> for an own key is looked up in \<open>entries v\<close>.
\<close>

fun entries :: "jsval \<Rightarrow> (string \<times> jsval) list" where
  "entries (JObj kvs) = kvs"
| "entries (JStr s) = map (\<lambda>i. (show_nat i, JStr [s ! i])) [0..<length s]"
| "entries v = []"

definition keys :: "jsval \<Rightarrow> string list" where
  "keys v = map fst (entries v)"

text \<open>Property read \<^verbatim>\<open>v[k]\<close> on a value that is neither null nor undefined.\<close>

definition get :: "jsval \<Rightarrow> string \<Rightarrow> jsval" where
  "get v k = (case map_of (entries v) k of None \<Rightarrow> JUndefined | Some x \<Rightarrow> x)"

text \<open>\<^verbatim>\<open>Array.prototype.join\<close> on an array of strings.\<close>

fun join :: "string \<Rightarrow> string list \<Rightarrow> string" where
  "join sep [] = []"
| "join sep [x] = x"
| "join sep (x # y # ys) = x @ sep @ join sep (y # ys)"

subsection \<open>Errors\<close>

text \<open>
  Every exception the source can raise or let through: a \<^verbatim>\<open>TypeError\<close> of the language (a
  member read on undefined, a call of a missing function), the failure of \<^verbatim>\<open>readFileSync\<close>,
  the source's own \<^verbatim>\<open>new Error(...)\<close> with its message, and an exception thrown by foreign
  code (the bundle, the extracted compiler, the resolver).
\<close>

datatype error =
    TypeError
  | ENOENT string
  | Error string
  | Thrown string

section \<open>Library functions the source calls\<close>

subsection \<open>\<^verbatim>\<open>readFileSync(path, 'utf8')\<close>: decoding\<close>

text \<open>
  Decoding the bytes of a file as UTF-8 replaces every ill-formed sequence by U+FFFD. The
  decoded text is represented by its own UTF-8 encoding, so a well-formed sequence is
  copied and an ill-formed one becomes the three bytes EF BF BD. The decoder is the
  standard one: the state is the number of continuation bytes still \<open>needed\<close>, the range
  \<open>lo..hi\<close> allowed for the next byte and the bytes \<open>seen\<close> of the current sequence.
\<close>

definition replacement :: string where
  "replacement = [CHR 0xEF, CHR 0xBF, CHR 0xBD]"

text \<open>A byte read with no sequence open: the output it produces and the next state.\<close>

definition utf8_lead :: "char \<Rightarrow> string \<times> nat \<times> nat \<times> nat \<times> string" where
  "utf8_lead c = (let b = (of_char c :: nat) in
     if b \<le> 0x7F then ([c], 0, 0x80, 0xBF, [])
     else if 0xC2 \<le> b \<and> b \<le> 0xDF then ([], 1, 0x80, 0xBF, [c])
     else if 0xE0 \<le> b \<and> b \<le> 0xEF then
       ([], 2, (if b = 0xE0 then 0xA0 else 0x80), (if b = 0xED then 0x9F else 0xBF), [c])
     else if 0xF0 \<le> b \<and> b \<le> 0xF4 then
       ([], 3, (if b = 0xF0 then 0x90 else 0x80), (if b = 0xF4 then 0x8F else 0xBF), [c])
     else (replacement, 0, 0x80, 0xBF, []))"

fun utf8_run :: "nat \<Rightarrow> nat \<Rightarrow> nat \<Rightarrow> string \<Rightarrow> string \<Rightarrow> string" where
  "utf8_run needed lo hi seen [] = (if needed = 0 then [] else replacement)"
| "utf8_run needed lo hi seen (c # cs) =
     (if needed = 0 then
        (case utf8_lead c of (out, n, l, h, s) \<Rightarrow> out @ utf8_run n l h s cs)
      else if (of_char c :: nat) < lo \<or> hi < (of_char c :: nat) then
        (case utf8_lead c of (out, n, l, h, s) \<Rightarrow> replacement @ out @ utf8_run n l h s cs)
      else if needed = 1 then seen @ [c] @ utf8_run 0 0x80 0xBF [] cs
      else utf8_run (needed - 1) 0x80 0xBF (seen @ [c]) cs)"

definition utf8_decode :: "string \<Rightarrow> string" where
  "utf8_decode bytes = utf8_run 0 0x80 0xBF [] bytes"

subsection \<open>\<^verbatim>\<open>strip-bom\<close>\<close>

text \<open>
  \<^verbatim>\<open>stripBom(s)\<close> drops the first character of \<open>s\<close> when it is U+FEFF, whose encoding
  is EF BB BF, and returns \<open>s\<close> otherwise.
\<close>

definition bom :: string where
  "bom = [CHR 0xEF, CHR 0xBB, CHR 0xBF]"

definition stripBom :: "string \<Rightarrow> string" where
  "stripBom s = (if take 3 s = bom then drop 3 s else s)"

subsection \<open>\<^verbatim>\<open>createHash('md5').update(s).digest('hex')\<close>\<close>

text \<open>
  The MD5 message digest (RFC 1321). A 32-bit word is a natural number below \<open>2 ^ 32\<close>;
  the additions wrap around and the words of the message are little-endian.
\<close>

type_synonym u32 = nat

definition add32 :: "u32 \<Rightarrow> u32 \<Rightarrow> u32" where
  "add32 a b = (a + b) mod 2 ^ 32"

definition not32 :: "u32 \<Rightarrow> u32" where
  "not32 a = 2 ^ 32 - 1 - a"

definition rotl32 :: "nat \<Rightarrow> u32 \<Rightarrow> u32" where
  "rotl32 s x = (x * 2 ^ s) mod 2 ^ 32 + x div 2 ^ (32 - s)"

definition md5_K :: "u32 list" where
  "md5_K = [
    0xd76aa478, 0xe8c7b756, 0x242070db, 0xc1bdceee, 0xf57c0faf, 0x4787c62a, 0xa8304613, 0xfd469501,
    0x698098d8, 0x8b44f7af, 0xffff5bb1, 0x895cd7be, 0x6b901122, 0xfd987193, 0xa679438e, 0x49b40821,
    0xf61e2562, 0xc040b340, 0x265e5a51, 0xe9b6c7aa, 0xd62f105d, 0x02441453, 0xd8a1e681, 0xe7d3fbc8,
    0x21e1cde6, 0xc33707d6, 0xf4d50d87, 0x455a14ed, 0xa9e3e905, 0xfcefa3f8, 0x676f02d9, 0x8d2a4c8a,
    0xfffa3942, 0x8771f681, 0x6d9d6122, 0xfde5380c, 0xa4beea44, 0x4bdecfa9, 0xf6bb4b60, 0xbebfbc70,
    0x289b7ec6, 0xeaa127fa, 0xd4ef3085, 0x04881d05, 0xd9d4d039, 0xe6db99e5, 0x1fa27cf8, 0xc4ac5665,
    0xf4292244, 0x432aff97, 0xab9423a7, 0xfc93a039, 0x655b59c3, 0x8f0ccc92, 0xffeff47d, 0x85845dd1,
    0x6fa87e4f, 0xfe2ce6e0, 0xa3014314, 0x4e0811a1, 0xf7537e82, 0xbd3af235, 0x2ad7d2bb, 0xeb86d391]"

definition md5_S :: "nat list" where
  "md5_S = [
    7, 12, 17, 22, 7, 12, 17, 22, 7, 12, 17, 22, 7, 12, 17, 22,
    5, 9, 14, 20, 5, 9, 14, 20, 5, 9, 14, 20, 5, 9, 14, 20,
    4, 11, 16, 23, 4, 11, 16, 23, 4, 11, 16, 23, 4, 11, 16, 23,
    6, 10, 15, 21, 6, 10, 15, 21, 6, 10, 15, 21, 6, 10, 15, 21]"

text \<open>The round function and the index of the message word used at step \<open>i\<close>.\<close>

definition md5_F :: "nat \<Rightarrow> u32 \<Rightarrow> u32 \<Rightarrow> u32 \<Rightarrow> u32" where
  "md5_F i b c d =
     (if i < 16 then (b AND c) OR (not32 b AND d)
      else if i < 32 then (d AND b) OR (not32 d AND c)
      else if i < 48 then b XOR c XOR d
      else c XOR (b OR not32 d))"

definition md5_g :: "nat \<Rightarrow> nat" where
  "md5_g i =
     (if i < 16 then i
      else if i < 32 then (5 * i + 1) mod 16
      else if i < 48 then (3 * i + 5) mod 16
      else (7 * i) mod 16)"

type_synonym md5_state = "u32 \<times> u32 \<times> u32 \<times> u32"

fun md5_step :: "u32 list \<Rightarrow> md5_state \<Rightarrow> nat \<Rightarrow> md5_state" where
  "md5_step m (a, b, c, d) i =
     (d,
      add32 b (rotl32 (md5_S ! i)
        (add32 (add32 (add32 (md5_F i b c d) a) (md5_K ! i)) (m ! md5_g i))),
      b, c)"

fun md5_add :: "md5_state \<Rightarrow> md5_state \<Rightarrow> md5_state" where
  "md5_add (a0, b0, c0, d0) (a, b, c, d) = (add32 a0 a, add32 b0 b, add32 c0 c, add32 d0 d)"

definition md5_block :: "md5_state \<Rightarrow> u32 list \<Rightarrow> md5_state" where
  "md5_block st m = md5_add st (foldl (md5_step m) st [0..<64])"

text \<open>Little-endian words of a byte string and bytes of a number.\<close>

fun le_words :: "string \<Rightarrow> u32 list" where
  "le_words (b0 # b1 # b2 # b3 # bs) =
     (of_char b0 + 256 * of_char b1 + 65536 * of_char b2 + 16777216 * of_char b3)
       # le_words bs"
| "le_words bs = []"

definition le_bytes :: "nat \<Rightarrow> nat \<Rightarrow> nat list" where
  "le_bytes k n = map (\<lambda>i. (n div 256 ^ i) mod 256) [0..<k]"

definition md5_pad :: "string \<Rightarrow> string" where
  "md5_pad s =
     s @ [CHR 0x80]
       @ replicate ((119 - length s mod 64) mod 64) (CHR 0x00)
       @ map char_of (le_bytes 8 ((8 * length s) mod 2 ^ 64))"

fun chunks :: "nat \<Rightarrow> 'a list \<Rightarrow> 'a list list" where
  "chunks 0 ws = []"
| "chunks (Suc k) ws = take 16 ws # chunks k (drop 16 ws)"

definition md5 :: "string \<Rightarrow> md5_state" where
  "md5 s = (let ws = le_words (md5_pad s) in
     foldl md5_block (0x67452301, 0xefcdab89, 0x98badcfe, 0x10325476)
       (chunks (length ws div 16) ws))"

definition hex_digit :: "nat \<Rightarrow> char" where
  "hex_digit d = ''0123456789abcdef'' ! d"

definition hex_byte :: "nat \<Rightarrow> string" where
  "hex_byte b = [hex_digit (b div 16), hex_digit (b mod 16)]"

fun digest_hex :: "md5_state \<Rightarrow> string" where
  "digest_hex (a, b, c, d) = concat (map hex_byte (concat (map (le_bytes 4) [a, b, c, d])))"

definition md5hex :: "string \<Rightarrow> string" where
  "md5hex s = digest_hex (md5 s)"

subsection \<open>\<^verbatim>\<open>json-stable-stringify\<close>\<close>

text \<open>
  \<^verbatim>\<open>JSON.stringify\<close> of a string: quoted, with the quote, the backslash and the control
  characters escaped.
\<close>

definition json_escape :: "char \<Rightarrow> string" where
  "json_escape c = (let b = (of_char c :: nat) in
     if b = 0x22 then [CHR 0x5C, CHR 0x22]
     else if b = 0x5C then [CHR 0x5C, CHR 0x5C]
     else if b = 0x08 then [CHR 0x5C, CHR ''b'']
     else if b = 0x09 then [CHR 0x5C, CHR ''t'']
     else if b = 0x0A then [CHR 0x5C, CHR ''n'']
     else if b = 0x0C then [CHR 0x5C, CHR ''f'']
     else if b = 0x0D then [CHR 0x5C, CHR ''r'']
     else if b < 0x20 then [CHR 0x5C, CHR ''u'', CHR ''0'', CHR ''0''] @ hex_byte b
     else [c])"

definition json_string :: "string \<Rightarrow> string" where
  "json_string s = [CHR 0x22] @ concat (map json_escape s) @ [CHR 0x22]"

text \<open>\<^verbatim>\<open>stringify({ syntax: k })\<close>: the object has the one key \<^verbatim>\<open>syntax\<close>.\<close>

definition stringify_syntax :: "string \<Rightarrow> string" where
  "stringify_syntax k = ''{'' @ json_string ''syntax'' @ '':'' @ json_string k @ ''}''"

section \<open>The data model\<close>

record 'p Plugins =
  ast :: "'p list option"

record 'p PreprocessOptions =
  contents :: string
  moduleName :: string
  plugins :: "'p Plugins option"

record ResolvedDep =
  runtimeName :: string
  path :: string

text \<open>
  The part of the bundle's module-scoped state that the source reads or writes: the
  registrations its plugin registry has received, in order, and the \<^verbatim>\<open>_Ember\<close> object
  with its two tables (absent when the bundle exports none).
\<close>

record Ember =
  FEATURES :: "string \<rightharpoonup> jsval"
  ENV :: "string \<rightharpoonup> jsval"

record 'p bundle_state =
  registered :: "(string \<times> 'p) list"
  Ember :: "Ember option"

text \<open>
  The interface \<^verbatim>\<open>GlimmerSyntax\<close>. Its functions are foreign code: each is a function of
  the bundle's state at the call and of the arguments, and returns or throws. A member
  the bundle does not define is \<open>None\<close>; calling it is a \<^verbatim>\<open>TypeError\<close>. The registry
  function either accepts a registration, which is then recorded in \<open>registered\<close>, or
  throws. \<^verbatim>\<open>syntax._Ember\<close> is \<open>Ember (internals syn)\<close> for the extracted compiler \<open>syn\<close>.
\<close>

record ('p, 'a) GlimmerSyntax =
  s_print :: "('p bundle_state \<Rightarrow> 'a \<Rightarrow> error + string) option"
  s_preprocess :: "('p bundle_state \<Rightarrow> string \<Rightarrow> 'p PreprocessOptions \<Rightarrow> error + 'a) option"
  s_defaultOptions :: "('p bundle_state \<Rightarrow> 'p PreprocessOptions \<Rightarrow> error + 'p PreprocessOptions) option"
  s_registerPlugin :: "(string \<Rightarrow> 'p \<Rightarrow> error option) option"
  s_precompile :: "('p bundle_state \<Rightarrow> string \<Rightarrow> 'p PreprocessOptions \<Rightarrow> error + string) option"
  internals :: "'p bundle_state"
  s_cacheKey :: string

text \<open>
  What executing a bundle constructs: the module tables it creates through
  \<^verbatim>\<open>Object.create\<close>, each with the modules \<^verbatim>\<open>@glimmer/syntax\<close> and
  \<^verbatim>\<open>ember-template-compiler/lib/system/compile-options\<close> when it defines them, and the
  value of \<^verbatim>\<open>module.exports\<close>.
\<close>

record ('p, 'a) glimmer_module =
  glimmer_print :: "('p bundle_state \<Rightarrow> 'a \<Rightarrow> error + string) option"
  glimmer_preprocess :: "('p bundle_state \<Rightarrow> string \<Rightarrow> 'p PreprocessOptions \<Rightarrow> error + 'a) option"

record 'p options_module =
  options_default :: "('p bundle_state \<Rightarrow> 'p PreprocessOptions \<Rightarrow> error + 'p PreprocessOptions) option"
  options_registerPlugin :: "(string \<Rightarrow> 'p \<Rightarrow> error option) option"

record ('p, 'a) grabbed_object =
  glimmer_syntax :: "('p, 'a) glimmer_module option"
  compile_options :: "'p options_module option"

record 'p bundle_exports =
  exports_precompile :: "('p bundle_state \<Rightarrow> string \<Rightarrow> 'p PreprocessOptions \<Rightarrow> error + string) option"
  exports_Ember :: "Ember option"

text \<open>
  The global \<^verbatim>\<open>Object.create\<close>: the native function, the interception that
  \<^verbatim>\<open>loadGlimmerSyntax\<close> installs around the function it found, or any other function.
\<close>

datatype create_fn =
    Native
  | Intercepting create_fn
  | Replaced nat

text \<open>
  One execution of a script text with a given \<^verbatim>\<open>Object.create\<close> installed: what it
  returns (\<open>None\<close> for null or undefined exports) or throws, the objects it constructed
  through the installed function, in order, the function it leaves installed, and
  whether \<^verbatim>\<open>Object.create\<close> can still be assigned afterwards (it cannot once the script
  has frozen \<^verbatim>\<open>Object\<close> or made the property read-only).
\<close>

record ('p, 'a) run_result =
  outcome :: "error + 'p bundle_exports option"
  constructed :: "('p, 'a) grabbed_object list"
  final_create :: create_fn
  create_assignable :: bool

text \<open>The process: the files, the script engine and the global \<^verbatim>\<open>Object.create\<close>.\<close>

record ('p, 'a) world =
  files :: "string \<rightharpoonup> string"
  run_script :: "string \<Rightarrow> create_fn \<Rightarrow> ('p, 'a) run_result"
  object_create :: create_fn

text \<open>
  The resolver (\<^verbatim>\<open>./resolver\<close>) is used through two members only: the plugin that
  \<^verbatim>\<open>astTransformer\<close> returns, or its exception, and the answer of \<^verbatim>\<open>dependenciesOf\<close>.
\<close>

record 'p Resolver =
  astTransformer :: "error + 'p"
  dependenciesOf :: "string \<Rightarrow> error + ResolvedDep list"

record 'p SetupCompilerParams =
  compilerPath :: string
  resolver :: "'p Resolver option"
  EmberENV :: jsval
  params_plugins :: "'p Plugins"

text \<open>
  An instance of \<^verbatim>\<open>TemplateCompiler\<close>; \<open>setup_memo\<close> is the cache of the memoized
  \<^verbatim>\<open>setup\<close>.
\<close>

record ('p, 'a) TemplateCompiler =
  params :: "'p SetupCompilerParams"
  userPluginsCount :: nat
  isParallelSafe :: bool
  setup_memo :: "(('p, 'a) GlimmerSyntax \<times> string) option"

record Precompiled =
  compiled :: string
  dependencies :: "ResolvedDep list"

section \<open>The compiler extractor\<close>

text \<open>The object literal that \<^verbatim>\<open>loadGlimmerSyntax\<close> returns for a matching object.\<close>

definition extracted ::
  "('p, 'a) grabbed_object \<Rightarrow> ('p, 'a) glimmer_module \<Rightarrow> 'p bundle_exports option \<Rightarrow> string
    \<Rightarrow> error + ('p, 'a) GlimmerSyntax" where
  "extracted obj m theExports source =
     (case compile_options obj of
        None \<Rightarrow> Inl TypeError
      | Some co \<Rightarrow>
          (case theExports of
             None \<Rightarrow> Inl TypeError
           | Some ex \<Rightarrow>
               Inr \<lparr> s_print = glimmer_print m,
                     s_preprocess = glimmer_preprocess m,
                     s_defaultOptions = options_default co,
                     s_registerPlugin = options_registerPlugin co,
                     s_precompile = exports_precompile ex,
                     internals = \<lparr> registered = [], Ember = exports_Ember ex \<rparr>,
                     s_cacheKey = md5hex source \<rparr>))"

text \<open>The loop over \<^verbatim>\<open>grabbed\<close>, and the error after it.\<close>

fun scan_grabbed ::
  "('p, 'a) grabbed_object list \<Rightarrow> 'p bundle_exports option \<Rightarrow> string \<Rightarrow> string
    \<Rightarrow> error + ('p, 'a) GlimmerSyntax" where
  "scan_grabbed [] theExports source templateCompilerPath =
     Inl (Error (''unable to find @glimmer/syntax methods in '' @ templateCompilerPath))"
| "scan_grabbed (obj # objs) theExports source templateCompilerPath =
     (case glimmer_syntax obj of
        None \<Rightarrow> scan_grabbed objs theExports source templateCompilerPath
      | Some m \<Rightarrow>
          (case glimmer_print m of
             None \<Rightarrow> scan_grabbed objs theExports source templateCompilerPath
           | Some pr \<Rightarrow> extracted obj m theExports source))"

text \<open>
  The assignment in the \<^verbatim>\<open>finally\<close> block is an assignment of module code, which is
  strict: on a property that cannot be assigned it throws a \<^verbatim>\<open>TypeError\<close>, which replaces
  the outcome of the \<^verbatim>\<open>try\<close> block, and the property keeps its value.
\<close>

definition loadGlimmerSyntax ::
  "('p, 'a) world \<Rightarrow> string \<Rightarrow> (error + ('p, 'a) GlimmerSyntax) \<times> ('p, 'a) world" where
  "loadGlimmerSyntax w templateCompilerPath =
     (let orig = object_create w in
      case files w templateCompilerPath of
        None \<Rightarrow> (Inl (ENOENT templateCompilerPath), w)
      | Some bytes \<Rightarrow>
          (let source = utf8_decode bytes;
               w1 = w \<lparr> object_create := Intercepting orig \<rparr>;
               r = run_script w1 source (object_create w1);
               grabbed = constructed r;
               w2 = w1 \<lparr> object_create := final_create r \<rparr>;
               w3 = w2 \<lparr> object_create := orig \<rparr>
           in if \<not> create_assignable r then (Inl TypeError, w2)
              else
                (case outcome r of
                   Inl e \<Rightarrow> (Inl e, w3)
                 | Inr theExports \<Rightarrow>
                     (scan_grabbed grabbed theExports source templateCompilerPath, w3))))"

section \<open>The plugin registrar\<close>

text \<open>\<^verbatim>\<open>syntax.registerPlugin(kind, plugin)\<close>.\<close>

definition registerPlugin ::
  "('p, 'a) GlimmerSyntax \<Rightarrow> string \<Rightarrow> 'p \<Rightarrow> error + ('p, 'a) GlimmerSyntax" where
  "registerPlugin syn kind plugin =
     (case s_registerPlugin syn of
        None \<Rightarrow> Inl TypeError
      | Some f \<Rightarrow>
          (case f kind plugin of
             Some e \<Rightarrow> Inl e
           | None \<Rightarrow>
               Inr (syn \<lparr> internals := (internals syn)
                      \<lparr> registered := registered (internals syn) @ [(kind, plugin)] \<rparr> \<rparr>)))"

text \<open>
  The loop of \<^verbatim>\<open>registerPlugins\<close> over the plugins from index \<open>i\<close> on, with the counter
  \<open>userPluginsCount\<close>.
\<close>

fun registerPlugins_loop ::
  "('p, 'a) GlimmerSyntax \<Rightarrow> 'p list \<Rightarrow> nat \<Rightarrow> error + (nat \<times> ('p, 'a) GlimmerSyntax)" where
  "registerPlugins_loop syn [] n = Inr (n, syn)"
| "registerPlugins_loop syn (p # ps) n =
     (case registerPlugin syn ''ast'' p of
        Inl e \<Rightarrow> Inl e
      | Inr syn' \<Rightarrow> registerPlugins_loop syn' ps (n + 1))"

definition registerPlugins ::
  "('p, 'a) GlimmerSyntax \<Rightarrow> 'p Plugins \<Rightarrow> error + (nat \<times> ('p, 'a) GlimmerSyntax)" where
  "registerPlugins syn pl =
     (case ast pl of
        None \<Rightarrow> Inr (0, syn)
      | Some ps \<Rightarrow> registerPlugins_loop syn ps 0)"

section \<open>The environment initializer\<close>

text \<open>
  The assignments \<^verbatim>\<open>syntax._Ember.FEATURES[prop] = v\<close> and \<^verbatim>\<open>syntax._Ember.ENV[prop] = v\<close>;
  reading a table of an undefined \<^verbatim>\<open>_Ember\<close> is a \<^verbatim>\<open>TypeError\<close>. The tables are plain
  objects: an assignment under the key \<^verbatim>\<open>__proto__\<close> goes to the accessor of the prototype
  and creates no entry.
\<close>

definition table_set :: "(string \<rightharpoonup> jsval) \<Rightarrow> string \<Rightarrow> jsval \<Rightarrow> (string \<rightharpoonup> jsval)" where
  "table_set t prop v = (if prop = ''__proto__'' then t else t(prop \<mapsto> v))"

definition set_FEATURE ::
  "('p, 'a) GlimmerSyntax \<Rightarrow> string \<Rightarrow> jsval \<Rightarrow> error + ('p, 'a) GlimmerSyntax" where
  "set_FEATURE syn prop v =
     (case Ember (internals syn) of
        None \<Rightarrow> Inl TypeError
      | Some e \<Rightarrow>
          Inr (syn \<lparr> internals := (internals syn)
                 \<lparr> Ember := Some (e \<lparr> FEATURES := table_set (FEATURES e) prop v \<rparr>) \<rparr> \<rparr>))"

definition set_ENV ::
  "('p, 'a) GlimmerSyntax \<Rightarrow> string \<Rightarrow> jsval \<Rightarrow> error + ('p, 'a) GlimmerSyntax" where
  "set_ENV syn prop v =
     (case Ember (internals syn) of
        None \<Rightarrow> Inl TypeError
      | Some e \<Rightarrow>
          Inr (syn \<lparr> internals := (internals syn)
                 \<lparr> Ember := Some (e \<lparr> ENV := table_set (ENV e) prop v \<rparr>) \<rparr> \<rparr>))"

text \<open>The two \<^verbatim>\<open>forEach\<close> loops over the keys.\<close>

fun copy_FEATURES ::
  "('p, 'a) GlimmerSyntax \<Rightarrow> jsval \<Rightarrow> string list \<Rightarrow> error + ('p, 'a) GlimmerSyntax" where
  "copy_FEATURES syn features [] = Inr syn"
| "copy_FEATURES syn features (prop # props) =
     (case set_FEATURE syn prop (get features prop) of
        Inl e \<Rightarrow> Inl e
      | Inr syn' \<Rightarrow> copy_FEATURES syn' features props)"

fun copy_ENV ::
  "('p, 'a) GlimmerSyntax \<Rightarrow> jsval \<Rightarrow> string list \<Rightarrow> error + ('p, 'a) GlimmerSyntax" where
  "copy_ENV syn env [] = Inr syn"
| "copy_ENV syn env (prop # props) =
     (if prop = ''FEATURES'' then copy_ENV syn env props
      else
        (case set_ENV syn prop (get env prop) of
           Inl e \<Rightarrow> Inl e
         | Inr syn' \<Rightarrow> copy_ENV syn' env props))"

definition initializeEmberENV ::
  "('p, 'a) GlimmerSyntax \<Rightarrow> jsval \<Rightarrow> error + ('p, 'a) GlimmerSyntax" where
  "initializeEmberENV syn env =
     (if \<not> truthy env then Inr syn
      else
        (case (if truthy (get env ''FEATURES'')
               then copy_FEATURES syn (get env ''FEATURES'') (keys (get env ''FEATURES''))
               else Inr syn) of
           Inl e \<Rightarrow> Inl e
         | Inr syn1 \<Rightarrow>
             (if truthy env then copy_ENV syn1 env (keys env) else Inr syn1)))"

section \<open>The compilation core\<close>

text \<open>The constructor: the field initializers of the class.\<close>

definition TemplateCompiler :: "'p SetupCompilerParams \<Rightarrow> ('p, 'a) TemplateCompiler" where
  "TemplateCompiler p =
     \<lparr> params = p, userPluginsCount = 0, isParallelSafe = False, setup_memo = None \<rparr>"

text \<open>
  The memoized \<^verbatim>\<open>setup\<close>. A method returns its result or exception together with the
  process and the instance as it leaves them. The cache is written only when the body
  returns.
\<close>

definition TemplateCompiler_setup ::
  "('p, 'a) world \<Rightarrow> ('p, 'a) TemplateCompiler
    \<Rightarrow> (error + (('p, 'a) GlimmerSyntax \<times> string)) \<times> ('p, 'a) world \<times> ('p, 'a) TemplateCompiler" where
  "TemplateCompiler_setup w this =
     (case setup_memo this of
        Some r \<Rightarrow> (Inr r, w, this)
      | None \<Rightarrow>
          (case loadGlimmerSyntax w (compilerPath (params this)) of
             (Inl e, w1) \<Rightarrow> (Inl e, w1, this)
           | (Inr syn, w1) \<Rightarrow>
               (case registerPlugins syn (params_plugins (params this)) of
                  Inl e \<Rightarrow> (Inl e, w1, this)
                | Inr (n, syn1) \<Rightarrow>
                    (let this1 = this \<lparr> userPluginsCount := userPluginsCount this + n \<rparr> in
                     case (case resolver (params this1) of
                             None \<Rightarrow> Inr (syn1, this1)
                           | Some r \<Rightarrow>
                               (case astTransformer r of
                                  Inl e \<Rightarrow> Inl (e, this1)
                                | Inr plugin \<Rightarrow>
                                    (case registerPlugin syn1 ''ast'' plugin of
                                       Inl e \<Rightarrow> Inl (e, this1)
                                     | Inr syn2 \<Rightarrow>
                                         Inr (syn2,
                                           this1 \<lparr> userPluginsCount := userPluginsCount this1 + 1 \<rparr>)))) of
                       Inl (e, this2) \<Rightarrow> (Inl e, w1, this2)
                     | Inr (syn2, this2) \<Rightarrow>
                         (case initializeEmberENV syn2 (EmberENV (params this2)) of
                            Inl e \<Rightarrow> (Inl e, w1, this2)
                          | Inr syn3 \<Rightarrow>
                              (let cacheKey = md5hex (stringify_syntax (s_cacheKey syn3));
                                   r = (syn3, cacheKey)
                               in (Inr r, w1, this2 \<lparr> setup_memo := Some r \<rparr>)))))))"

text \<open>The getters \<^verbatim>\<open>syntax\<close> and \<^verbatim>\<open>cacheKey\<close>.\<close>

definition TemplateCompiler_syntax ::
  "('p, 'a) world \<Rightarrow> ('p, 'a) TemplateCompiler
    \<Rightarrow> (error + ('p, 'a) GlimmerSyntax) \<times> ('p, 'a) world \<times> ('p, 'a) TemplateCompiler" where
  "TemplateCompiler_syntax w this =
     (case TemplateCompiler_setup w this of
        (Inl e, w', this') \<Rightarrow> (Inl e, w', this')
      | (Inr r, w', this') \<Rightarrow> (Inr (fst r), w', this'))"

definition cacheKey ::
  "('p, 'a) world \<Rightarrow> ('p, 'a) TemplateCompiler
    \<Rightarrow> (error + string) \<times> ('p, 'a) world \<times> ('p, 'a) TemplateCompiler" where
  "cacheKey w this =
     (case TemplateCompiler_setup w this of
        (Inl e, w', this') \<Rightarrow> (Inl e, w', this')
      | (Inr r, w', this') \<Rightarrow> (Inr (snd r), w', this'))"

text \<open>A call of a member of the extracted compiler.\<close>

definition call :: "'f option \<Rightarrow> ('f \<Rightarrow> error + 'r) \<Rightarrow> error + 'r" where
  "call member k = (case member of None \<Rightarrow> Inl TypeError | Some f \<Rightarrow> k f)"

definition precompile ::
  "('p, 'a) world \<Rightarrow> ('p, 'a) TemplateCompiler \<Rightarrow> string \<Rightarrow> string
    \<Rightarrow> (error + Precompiled) \<times> ('p, 'a) world \<times> ('p, 'a) TemplateCompiler" where
  "precompile w this moduleName' contents' =
     (case TemplateCompiler_syntax w this of
        (Inl e, w', this') \<Rightarrow> (Inl e, w', this')
      | (Inr sx, w', this') \<Rightarrow>
          (case call (s_precompile sx) (\<lambda>f. f (internals sx) (stripBom contents')
                  \<lparr> contents = contents', moduleName = moduleName', plugins = None \<rparr>) of
             Inl e \<Rightarrow> (Inl e, w', this')
           | Inr c \<Rightarrow>
               (case resolver (params this') of
                  Some r \<Rightarrow>
                    (case dependenciesOf r moduleName' of
                       Inl e \<Rightarrow> (Inl e, w', this')
                     | Inr deps \<Rightarrow> (Inr \<lparr> compiled = c, dependencies = deps \<rparr>, w', this'))
                | None \<Rightarrow> (Inr \<lparr> compiled = c, dependencies = [] \<rparr>, w', this'))))"

text \<open>The statements \<^verbatim>\<open>compile\<close> pushes, and its loop with \<open>lines\<close> and \<open>counter\<close>.\<close>

definition import_line :: "nat \<Rightarrow> ResolvedDep \<Rightarrow> string" where
  \<open>import_line counter dep = ''import a'' @ show_nat counter @ '' from "'' @ path dep @ ''";''\<close>

definition define_line :: "nat \<Rightarrow> ResolvedDep \<Rightarrow> string" where
  "define_line counter dep =
     ''window.define('' @ [CHR 0x27] @ runtimeName dep @ [CHR 0x27]
       @ '', function(){ return a'' @ show_nat counter @ ''});''"

definition export_line :: "string \<Rightarrow> string" where
  "export_line c = ''export default Ember.HTMLBars.template('' @ c @ '');''"

fun compile_loop :: "ResolvedDep list \<Rightarrow> string list \<Rightarrow> nat \<Rightarrow> string list" where
  "compile_loop [] lines counter = lines"
| "compile_loop (dep # deps) lines counter =
     compile_loop deps (lines @ [import_line counter dep, define_line counter dep]) (counter + 1)"

definition compile ::
  "('p, 'a) world \<Rightarrow> ('p, 'a) TemplateCompiler \<Rightarrow> string \<Rightarrow> string
    \<Rightarrow> (error + string) \<times> ('p, 'a) world \<times> ('p, 'a) TemplateCompiler" where
  "compile w this moduleName' contents' =
     (case precompile w this moduleName' contents' of
        (Inl e, w', this') \<Rightarrow> (Inl e, w', this')
      | (Inr r, w', this') \<Rightarrow>
          (let lines = compile_loop (dependencies r) [] 0;
               lines = lines @ [export_line (compiled r)]
           in (Inr (join [CHR 0x0A] lines), w', this')))"

text \<open>
  The assignment \<^verbatim>\<open>opts.plugins.ast = opts.plugins.ast.slice(0, this.userPluginsCount)\<close>
  under its guard.
\<close>

definition slice_plugins :: "nat \<Rightarrow> 'p PreprocessOptions \<Rightarrow> 'p PreprocessOptions" where
  "slice_plugins n opts =
     (case plugins opts of
        None \<Rightarrow> opts
      | Some pl \<Rightarrow>
          (case ast pl of
             None \<Rightarrow> opts
           | Some a \<Rightarrow> opts \<lparr> plugins := Some (pl \<lparr> ast := Some (take n a) \<rparr>) \<rparr>))"

definition applyTransforms ::
  "('p, 'a) world \<Rightarrow> ('p, 'a) TemplateCompiler \<Rightarrow> string \<Rightarrow> string
    \<Rightarrow> (error + string) \<times> ('p, 'a) world \<times> ('p, 'a) TemplateCompiler" where
  "applyTransforms w this moduleName' contents' =
     (case TemplateCompiler_syntax w this of
        (Inl e, w', this') \<Rightarrow> (Inl e, w', this')
      | (Inr sx, w', this') \<Rightarrow>
          (case call (s_defaultOptions sx) (\<lambda>f. f (internals sx)
                  \<lparr> contents = contents', moduleName = moduleName', plugins = None \<rparr>) of
             Inl e \<Rightarrow> (Inl e, w', this')
           | Inr opts \<Rightarrow>
               (let opts' = slice_plugins (userPluginsCount this') opts in
                case call (s_preprocess sx) (\<lambda>f. f (internals sx) contents' opts') of
                  Inl e \<Rightarrow> (Inl e, w', this')
                | Inr tree \<Rightarrow>
                    (case call (s_print sx) (\<lambda>f. f (internals sx) tree) of
                       Inl e \<Rightarrow> (Inl e, w', this')
                     | Inr text \<Rightarrow> (Inr text, w', this')))))"

definition parse ::
  "('p, 'a) world \<Rightarrow> ('p, 'a) TemplateCompiler \<Rightarrow> string \<Rightarrow> string
    \<Rightarrow> (error + 'a) \<times> ('p, 'a) world \<times> ('p, 'a) TemplateCompiler" where
  "parse w this moduleName' contents' =
     (let opts = \<lparr> contents = contents', moduleName = moduleName',
                   plugins = Some \<lparr> ast = None \<rparr> \<rparr> in
      case TemplateCompiler_syntax w this of
        (Inl e, w', this') \<Rightarrow> (Inl e, w', this')
      | (Inr sx, w', this') \<Rightarrow>
          (case call (s_preprocess sx) (\<lambda>f. f (internals sx) contents' opts) of
             Inl e \<Rightarrow> (Inl e, w', this')
           | Inr tree \<Rightarrow> (Inr tree, w', this')))"

section \<open>The staged tree processor\<close>

datatype stage = Stage1 | Stage3

definition stage_number :: "stage \<Rightarrow> nat" where
  "stage_number st = (case st of Stage1 \<Rightarrow> 1 | Stage3 \<Rightarrow> 3)"

text \<open>The options that the constructor of \<^verbatim>\<open>TemplateCompileTree\<close> passes to the filter.\<close>

record FilterOptions =
  filter_name :: string
  persist :: bool
  extensions :: "string list"
  targetExtension :: "string option"

definition TemplateCompileTree_options :: "stage \<Rightarrow> FilterOptions" where
  "TemplateCompileTree_options st =
     \<lparr> filter_name = ''embroider-template-compile-stage'' @ show_nat (stage_number st),
       persist = True,
       extensions = [''hbs'', ''handlebars''],
       targetExtension = (if stage_number st = 3 then Some ''js'' else None) \<rparr>"

text \<open>\<^verbatim>\<open>processString\<close>: stage 1 applies the transforms, stage 3 compiles.\<close>

definition processString ::
  "stage \<Rightarrow> ('p, 'a) world \<Rightarrow> ('p, 'a) TemplateCompiler \<Rightarrow> string \<Rightarrow> string
    \<Rightarrow> (error + string) \<times> ('p, 'a) world \<times> ('p, 'a) TemplateCompiler" where
  "processString st w templateCompiler source relativePath =
     (if stage_number st = 1 then applyTransforms w templateCompiler relativePath source
      else compile w templateCompiler relativePath source)"

text \<open>
  Modelled from the spec: the persistent filter that \<^verbatim>\<open>TemplateCompileTree\<close> extends
  (the package \<^verbatim>\<open>broccoli-persistent-filter\<close>) is not under \<^verbatim>\<open>src/\<close>. It operates only
  on files whose path ends in a dot and one of the \<open>extensions\<close>; the output path is the
  input path, with that extension replaced by the \<open>targetExtension\<close> when one is given.
  \<open>None\<close> is a file the filter does not process.
\<close>

definition has_extension :: "string \<Rightarrow> string \<Rightarrow> bool" where
  "has_extension relativePath ext =
     (drop (length relativePath - (length ext + 1)) relativePath = ''.'' @ ext)"

fun dest_path :: "string list \<Rightarrow> string option \<Rightarrow> string \<Rightarrow> string option" where
  "dest_path [] target relativePath = None"
| "dest_path (ext # exts) target relativePath =
     (if has_extension relativePath ext then
        (case target of
           None \<Rightarrow> Some relativePath
         | Some t \<Rightarrow> Some (take (length relativePath - length ext) relativePath @ t))
      else dest_path exts target relativePath)"

definition output_path :: "FilterOptions \<Rightarrow> string \<Rightarrow> string option" where
  "output_path opts relativePath =
     dest_path (extensions opts) (targetExtension opts) relativePath"

section \<open>The portable serializer\<close>

text \<open>
  The template of \<^verbatim>\<open>PortableTemplateCompiler\<close>, rendered. The helpers
  \<^verbatim>\<open>js-string-escape\<close> and \<^verbatim>\<open>json-stringify\<close> belong to \<^verbatim>\<open>./js-handlebars\<close>; their
  outputs for \<^verbatim>\<open>here\<close> and \<^verbatim>\<open>portable\<close> are the parameters \<open>here_escaped\<close> and
  \<open>portable_json\<close>. A boolean is rendered as \<^verbatim>\<open>true\<close> or \<^verbatim>\<open>false\<close>.
\<close>

definition show_bool :: "bool \<Rightarrow> string" where
  "show_bool b = (if b then ''true'' else ''false'')"

definition template_head :: "string \<Rightarrow> string \<Rightarrow> string" where
  \<open>template_head here_escaped portable_json =
     [CHR 0x0A] @ ''  "use strict";'' @ [CHR 0x0A]
     @ ''  const { PortablePluginConfig } = require('' @ [CHR 0x27] @ here_escaped @ [CHR 0x27]
     @ '');'' @ [CHR 0x0A]
     @ ''  const TemplateCompiler = require('' @ [CHR 0x27]
     @ ''@embroider/core/src/template-compiler'' @ [CHR 0x27] @ '').default;'' @ [CHR 0x0A]
     @ ''  const templateCompiler = new TemplateCompiler(PortablePluginConfig.load(''
     @ portable_json @ ''));'' @ [CHR 0x0A]\<close>

definition template_flag :: "bool \<Rightarrow> string" where
  "template_flag b = ''  templateCompiler.isParallelSafe = '' @ show_bool b @ '';'' @ [CHR 0x0A]"

definition template_tail :: string where
  "template_tail = ''  module.exports = templateCompiler;'' @ [CHR 0x0A] @ ''  ''"

definition PortableTemplateCompiler_template :: "string \<Rightarrow> string \<Rightarrow> bool \<Rightarrow> string" where
  "PortableTemplateCompiler_template here_escaped portable_json b =
     template_head here_escaped portable_json @ template_flag b @ template_tail"

section \<open>A sample bundle, resolver and configuration\<close>

text \<open>
  Concrete inputs on which the theorems below are instantiated. Plugins are named by
  strings and a syntax tree is the text it prints to. The sample options builder returns
  the registered plugins followed by three built-in ones; the sample preprocessor records
  the plugins it ran in front of the template text. The sample bundle is a script
  that does what these functions do.
\<close>

definition sample_precompile ::
  "string bundle_state \<Rightarrow> string \<Rightarrow> string PreprocessOptions \<Rightarrow> error + string" where
  "sample_precompile st s opts = Inr (''['' @ s @ '']'')"

definition sample_defaultOptions ::
  "string bundle_state \<Rightarrow> string PreprocessOptions \<Rightarrow> error + string PreprocessOptions" where
  "sample_defaultOptions st opts =
     Inr (opts \<lparr> plugins := Some \<lparr> ast = Some (map snd (registered st)
            @ [''builtin-1'', ''builtin-2'', ''builtin-3'']) \<rparr> \<rparr>)"

definition sample_preprocess ::
  "string bundle_state \<Rightarrow> string \<Rightarrow> string PreprocessOptions \<Rightarrow> error + string" where
  "sample_preprocess st html opts =
     Inr (concat (map (\<lambda>p. ''<'' @ p @ ''>'')
            (case plugins opts of
               None \<Rightarrow> []
             | Some pl \<Rightarrow> (case ast pl of None \<Rightarrow> [] | Some a \<Rightarrow> a))) @ html)"

definition sample_print :: "string bundle_state \<Rightarrow> string \<Rightarrow> error + string" where
  "sample_print st tree = Inr tree"

definition sample_registerPlugin :: "string \<Rightarrow> string \<Rightarrow> error option" where
  "sample_registerPlugin kind plugin =
     (if kind = ''ast'' then None else Some (Thrown ''not a valid plugin type''))"

definition sample_object :: "(string, string) grabbed_object" where
  "sample_object =
     \<lparr> glimmer_syntax = Some \<lparr> glimmer_print = Some sample_print,
                               glimmer_preprocess = Some sample_preprocess \<rparr>,
       compile_options = Some \<lparr> options_default = Some sample_defaultOptions,
                                options_registerPlugin = Some sample_registerPlugin \<rparr> \<rparr>"

definition sample_exports :: "string bundle_exports" where
  "sample_exports =
     \<lparr> exports_precompile = Some sample_precompile,
       exports_Ember = Some \<lparr> FEATURES = Map.empty, ENV = Map.empty \<rparr> \<rparr>"

text \<open>
  The script engine on the script texts used here: the sample bundle, also behind a
  comment that holds U+FFFD, and a script that freezes \<^verbatim>\<open>Object\<close>. Any other text is
  treated as a script that does not parse.
\<close>

definition sample_bundle :: string where
  \<open>sample_bundle =
     ''var reg=[];Object.create(null);var m=Object.create(null);''
     @ ''m["@glimmer/syntax"]={print:function(a){return a},''
     @ ''preprocess:function(h,o){var p=o&&o.plugins&&o.plugins.ast||[];''
     @ ''return p.map(function(x){return "<"+x+">"}).join("")+h}};''
     @ ''m["ember-template-compiler/lib/system/compile-options"]={''
     @ ''default:function(o){o.plugins={ast:reg.concat(["builtin-1","builtin-2","builtin-3"])};return o},''
     @ ''registerPlugin:function(t,p){if(t!=="ast")throw new Error("not a valid plugin type");reg.push(p)}};''
     @ ''module.exports={precompile:function(s){return "["+s+"]"},_Ember:{FEATURES:{},ENV:{}}};''\<close>

definition freezing_bundle :: string where
  "freezing_bundle = ''Object.freeze(Object);''"

definition sample_run :: "string \<Rightarrow> create_fn \<Rightarrow> (string, string) run_result" where
  "sample_run source installed =
     (if source = sample_bundle \<or> source = ''/*'' @ replacement @ ''*/'' @ sample_bundle then
        \<lparr> outcome = Inr (Some sample_exports),
          constructed = [\<lparr> glimmer_syntax = None, compile_options = None \<rparr>, sample_object],
          final_create = installed,
          create_assignable = True \<rparr>
      else if source = freezing_bundle then
        \<lparr> outcome = Inr (Some \<lparr> exports_precompile = None, exports_Ember = None \<rparr>),
          constructed = [],
          final_create = installed,
          create_assignable = False \<rparr>
      else
        \<lparr> outcome = Inl (Thrown ''SyntaxError''),
          constructed = [],
          final_create = installed,
          create_assignable = True \<rparr>)"

definition sample_world :: "(string, string) world" where
  "sample_world =
     \<lparr> files = [''/app/ember-template-compiler.js'' \<mapsto> sample_bundle],
       run_script = sample_run,
       object_create = Native \<rparr>"

definition sample_resolver :: "string Resolver" where
  "sample_resolver =
     \<lparr> astTransformer = Inr ''resolver-plugin'',
       dependenciesOf = (\<lambda>m. Inr [\<lparr> runtimeName = ''a'', path = ''./a'' \<rparr>,
                                  \<lparr> runtimeName = ''b'', path = ''./b'' \<rparr>]) \<rparr>"

definition sample_params :: "string Resolver option \<Rightarrow> string list \<Rightarrow> string SetupCompilerParams" where
  "sample_params r ps =
     \<lparr> compilerPath = ''/app/ember-template-compiler.js'',
       resolver = r,
       EmberENV = JObj [(''FEATURES'', JObj [(''flag'', JBool True)]), (''debug'', JNum 1)],
       params_plugins = \<lparr> ast = Some ps \<rparr> \<rparr>"

text \<open>The compiler extracted from the sample bundle once \<open>regs\<close> are registered.\<close>

definition sample_extracted :: "(string \<times> string) list \<Rightarrow> (string, string) GlimmerSyntax" where
  "sample_extracted regs =
     \<lparr> s_print = Some sample_print,
       s_preprocess = Some sample_preprocess,
       s_defaultOptions = Some sample_defaultOptions,
       s_registerPlugin = Some sample_registerPlugin,
       s_precompile = Some sample_precompile,
       internals = \<lparr> registered = regs,
                     Ember = Some \<lparr> FEATURES = [''flag'' \<mapsto> JBool True],
                                    ENV = [''debug'' \<mapsto> JNum 1] \<rparr> \<rparr>,
       s_cacheKey = md5hex (utf8_decode sample_bundle) \<rparr>"

text \<open>
  Two bundle files that differ in one byte, the third byte, which is ill-formed UTF-8 in
  both, in front of the sample bundle; and a process that holds them at three paths, with the freezing script at a fourth.
\<close>

definition bundle_FF :: string where
  "bundle_FF = ''/*'' @ [CHR 0xFF] @ ''*/'' @ sample_bundle"

definition bundle_FE :: string where
  "bundle_FE = ''/*'' @ [CHR 0xFE] @ ''*/'' @ sample_bundle"

definition two_bundles_world :: "(string, string) world" where
  "two_bundles_world =
     \<lparr> files = [''/a/ember-template-compiler.js'' \<mapsto> bundle_FF,
                ''/b/ember-template-compiler.js'' \<mapsto> bundle_FE,
                ''/c/ember-template-compiler.js'' \<mapsto> bundle_FF,
                ''/d/ember-template-compiler.js'' \<mapsto> freezing_bundle],
       run_script = sample_run,
       object_create = Native \<rparr>"

text \<open>The sample parameters with the bundle at path \<open>p\<close>.\<close>

definition params_at :: "string \<Rightarrow> string SetupCompilerParams" where
  "params_at p = (sample_params None []) \<lparr> compilerPath := p \<rparr>"

section \<open>Auxiliary facts\<close>

lemma compile_loop_acc:
  "compile_loop deps lines n =
     lines @ concat (map (\<lambda>i. [import_line (n + i) (deps ! i), define_line (n + i) (deps ! i)]) [0..<length deps])"
proof (induction deps arbitrary: lines n)
  case Nil
  then show ?case by simp
next
  case (Cons d ds)
  let ?F = "\<lambda>i. [import_line (n + i) ((d # ds) ! i), define_line (n + i) ((d # ds) ! i)]"
  have "map ?F [0..<Suc (length ds)] = ?F 0 # map (\<lambda>i. ?F (Suc i)) [0..<length ds]"
    by (rule map_upt_Suc)
  then show ?case using Cons.IH [of "lines @ [import_line n d, define_line n d]" "Suc n"]
    by simp
qed

lemma loadGlimmerSyntax_world:
  "fst (loadGlimmerSyntax w p) = Inr syn \<Longrightarrow> snd (loadGlimmerSyntax w p) = w"
  by (auto simp: loadGlimmerSyntax_def Let_def split: option.splits sum.splits if_splits)

lemma scan_grabbed_Inr:
  "scan_grabbed objs ex source p = Inr syn \<Longrightarrow>
     registered (internals syn) = [] \<and> s_cacheKey syn = md5hex source"
  by (induction objs) (auto simp: extracted_def split: option.splits)

lemma loadGlimmerSyntax_Inr:
  assumes "fst (loadGlimmerSyntax w p) = Inr syn"
  shows "\<exists>bytes. files w p = Some bytes \<and> s_cacheKey syn = md5hex (utf8_decode bytes) \<and> registered (internals syn) = []"
  using assms
  by (auto simp: loadGlimmerSyntax_def Let_def split: option.splits sum.splits if_splits dest: scan_grabbed_Inr)

lemma registerPlugin_Inr:
  "registerPlugin syn kind p = Inr syn' \<Longrightarrow>
     syn' = syn \<lparr> internals := (internals syn) \<lparr> registered := registered (internals syn) @ [(kind, p)] \<rparr> \<rparr>"
  by (auto simp: registerPlugin_def split: option.splits)

lemma registerPlugins_loop_Inr:
  "registerPlugins_loop syn ps n = Inr (m, syn') \<Longrightarrow>
     m = n + length ps \<and>
     syn' = syn \<lparr> internals := (internals syn) \<lparr> registered := registered (internals syn) @ map (Pair ''ast'') ps \<rparr> \<rparr>"
proof (induction ps arbitrary: syn n)
  case Nil
  then show ?case by simp
next
  case (Cons p ps)
  from Cons.prems obtain syn1 where r: "registerPlugin syn ''ast'' p = Inr syn1"
    and l: "registerPlugins_loop syn1 ps (n + 1) = Inr (m, syn')"
    by (auto split: sum.splits)
  from registerPlugin_Inr [OF r] Cons.IH [OF l] show ?case by simp
qed

lemma copy_FEATURES_Inr:
  "Ember (internals syn) = Some e \<Longrightarrow>
     copy_FEATURES syn f ks =
       Inr (syn \<lparr> internals := (internals syn)
              \<lparr> Ember := Some (e \<lparr> FEATURES := foldl (\<lambda>m k. table_set m k (get f k)) (FEATURES e) ks \<rparr>) \<rparr> \<rparr>)"
proof (induction ks arbitrary: syn e)
  case Nil
  then show ?case by simp
next
  case (Cons k ks)
  then show ?case by (simp add: set_FEATURE_def)
qed

lemma copy_ENV_Inr:
  "Ember (internals syn) = Some e \<Longrightarrow>
     copy_ENV syn v ks =
       Inr (syn \<lparr> internals := (internals syn)
              \<lparr> Ember := Some (e \<lparr> ENV := foldl (\<lambda>m k. table_set m k (get v k)) (ENV e)
                                          (filter (\<lambda>k. k \<noteq> ''FEATURES'') ks) \<rparr>) \<rparr> \<rparr>)"
proof (induction ks arbitrary: syn e)
  case Nil
  then show ?case by simp
next
  case (Cons k ks)
  then show ?case by (simp add: set_ENV_def)
qed

lemma foldl_upd:
  "foldl (\<lambda>m k. table_set m k (g k)) m ks
     = (\<lambda>k. if k \<in> set ks \<and> k \<noteq> ''__proto__'' then Some (g k) else m k)"
  by (induction ks arbitrary: m) (auto simp: fun_eq_iff table_set_def)

lemma copied_keys:
  "foldl (\<lambda>m k. table_set m k (get v k)) m (keys v)
     = m ++ (map_of (entries v) |` (- {''__proto__''}))"
proof -
  have "k \<in> set (keys v) \<Longrightarrow> map_of (entries v) k = Some (get v k)" for k
    by (auto simp: keys_def get_def map_of_eq_None_iff split: option.splits)
  moreover have "k \<notin> set (keys v) \<Longrightarrow> map_of (entries v) k = None" for k
    by (simp add: keys_def map_of_eq_None_iff)
  ultimately show ?thesis
    by (auto simp: foldl_upd fun_eq_iff map_add_def restrict_map_def)
qed

lemma copied_keys_except:
  "foldl (\<lambda>m k. table_set m k (get v k)) m (filter (\<lambda>k. k \<noteq> x) (keys v))
     = m ++ (map_of (entries v) |` (- {x, ''__proto__''}))"
proof -
  have "k \<in> set (keys v) \<Longrightarrow> map_of (entries v) k = Some (get v k)" for k
    by (auto simp: keys_def get_def map_of_eq_None_iff split: option.splits)
  moreover have "k \<notin> set (keys v) \<Longrightarrow> map_of (entries v) k = None" for k
    by (simp add: keys_def map_of_eq_None_iff)
  ultimately show ?thesis
    by (auto simp: foldl_upd fun_eq_iff map_add_def restrict_map_def)
qed

lemma falsy_entries: "\<not> truthy v \<Longrightarrow> entries v = []"
  by (cases v) auto

lemma initializeEmberENV_tables:
  assumes "Ember (internals syn) = Some e" and "truthy env"
  shows "initializeEmberENV syn env =
     Inr (syn \<lparr> internals := (internals syn)
            \<lparr> Ember := Some (e \<lparr>
                 FEATURES := FEATURES e
                   ++ (map_of (entries (get env ''FEATURES'')) |` (- {''__proto__''})),
                 ENV := ENV e ++ (map_of (entries env) |` (- {''FEATURES'', ''__proto__''})) \<rparr>) \<rparr> \<rparr>)"
proof (cases "truthy (get env ''FEATURES'')")
  case True
  then show ?thesis using assms
    by (simp add: initializeEmberENV_def copy_FEATURES_Inr copy_ENV_Inr copied_keys copied_keys_except)
next
  case False
  then show ?thesis using assms
    by (simp add: initializeEmberENV_def copy_ENV_Inr copied_keys_except falsy_entries)
qed

lemma copy_FEATURES_same:
  "copy_FEATURES syn f ks = Inr syn' \<Longrightarrow>
     registered (internals syn') = registered (internals syn) \<and> s_cacheKey syn' = s_cacheKey syn
     \<and> s_print syn' = s_print syn \<and> s_preprocess syn' = s_preprocess syn
     \<and> s_defaultOptions syn' = s_defaultOptions syn \<and> s_precompile syn' = s_precompile syn
     \<and> s_registerPlugin syn' = s_registerPlugin syn"
  by (induction ks arbitrary: syn) (auto simp: set_FEATURE_def split: option.splits sum.splits)

lemma copy_ENV_same:
  "copy_ENV syn f ks = Inr syn' \<Longrightarrow>
     registered (internals syn') = registered (internals syn) \<and> s_cacheKey syn' = s_cacheKey syn
     \<and> s_print syn' = s_print syn \<and> s_preprocess syn' = s_preprocess syn
     \<and> s_defaultOptions syn' = s_defaultOptions syn \<and> s_precompile syn' = s_precompile syn
     \<and> s_registerPlugin syn' = s_registerPlugin syn"
  by (induction ks arbitrary: syn) (auto simp: set_ENV_def split: option.splits sum.splits if_splits)

lemma initializeEmberENV_same:
  "initializeEmberENV syn env = Inr syn' \<Longrightarrow>
     registered (internals syn') = registered (internals syn) \<and> s_cacheKey syn' = s_cacheKey syn
     \<and> s_print syn' = s_print syn \<and> s_preprocess syn' = s_preprocess syn
     \<and> s_defaultOptions syn' = s_defaultOptions syn \<and> s_precompile syn' = s_precompile syn
     \<and> s_registerPlugin syn' = s_registerPlugin syn"
  unfolding initializeEmberENV_def
  by (auto split: if_splits sum.splits dest!: copy_FEATURES_same copy_ENV_same)

lemma setup_Inr:
  assumes "setup_memo this = None" and "TemplateCompiler_setup w this = (Inr r, w', this')"
  shows "\<exists>syn0 n syn1 syn2.
     fst (loadGlimmerSyntax w (compilerPath (params this))) = Inr syn0
   \<and> registerPlugins syn0 (params_plugins (params this)) = Inr (n, syn1)
   \<and> (case resolver (params this) of
        None \<Rightarrow> syn2 = syn1
      | Some rs \<Rightarrow> (\<exists>pl. astTransformer rs = Inr pl \<and> registerPlugin syn1 ''ast'' pl = Inr syn2))
   \<and> initializeEmberENV syn2 (EmberENV (params this)) = Inr (fst r)
   \<and> snd r = md5hex (stringify_syntax (s_cacheKey (fst r)))
   \<and> w' = w
   \<and> this' = this \<lparr> userPluginsCount :=
                       userPluginsCount this + n + (case resolver (params this) of None \<Rightarrow> 0 | Some rs \<Rightarrow> 1),
                     setup_memo := Some r \<rparr>"
proof -
  obtain res w1 where l: "loadGlimmerSyntax w (compilerPath (params this)) = (res, w1)"
    by (cases "loadGlimmerSyntax w (compilerPath (params this))")
  with loadGlimmerSyntax_world [of w "compilerPath (params this)"]
  have w1: "w1 = w" if "res = Inr x" for x
    using that by simp
  show ?thesis
    using assms l w1 unfolding TemplateCompiler_setup_def
    by (auto simp: Let_def split: option.splits sum.splits prod.splits)
qed

lemma join_Cons: "ys \<noteq> [] \<Longrightarrow> join sep (x # ys) = x @ sep @ join sep ys"
  by (cases ys) simp_all

lemma join_pairs:
  "join sep (concat (map (\<lambda>i. [f i, g i]) xs) @ [e])
     = concat (map (\<lambda>i. f i @ sep @ g i @ sep) xs) @ e"
  by (induction xs) (simp_all add: join_Cons)

lemma show_nat_digit: "\<forall>d. d < 10 \<longrightarrow> show_nat d = [''0123456789'' ! d]"
  by (simp add: show_nat.simps digit_char_def)

lemma show_nat_step:
  "\<forall>n d. 0 < n \<longrightarrow> d < 10 \<longrightarrow> show_nat (10 * n + d) = show_nat n @ [''0123456789'' ! d]"
proof (intro allI impI)
  fix n d :: nat
  assume "0 < n" and "d < 10"
  then have "\<not> 10 * n + d < 10" and "(10 * n + d) div 10 = n" and "(10 * n + d) mod 10 = d"
    by simp_all
  then show "show_nat (10 * n + d) = show_nat n @ [''0123456789'' ! d]"
    by (subst show_nat.simps) (simp add: digit_char_def)
qed

lemma decoded_sample: "utf8_decode sample_bundle = sample_bundle"
  by (simp add: utf8_decode_def sample_bundle_def utf8_lead_def)

lemmas sample_defs =
  sample_params_def sample_world_def sample_run_def sample_object_def sample_exports_def
  sample_registerPlugin_def sample_resolver_def sample_precompile_def sample_defaultOptions_def
  sample_preprocess_def sample_print_def

lemmas run_defs =
  precompile_def TemplateCompiler_syntax_def TemplateCompiler_setup_def TemplateCompiler_def
  loadGlimmerSyntax_def extracted_def registerPlugins_def registerPlugin_def
  initializeEmberENV_def get_def keys_def set_FEATURE_def set_ENV_def table_set_def call_def Let_def
  decoded_sample

lemma setup_preserves:
  assumes "TemplateCompiler_setup w this = (res, w', this')"
  shows "params this' = params this \<and> isParallelSafe this' = isParallelSafe this"
  using assms unfolding TemplateCompiler_setup_def
  by (auto simp: Let_def split: option.splits sum.splits prod.splits)

lemma syntax_preserves:
  assumes "TemplateCompiler_syntax w this = (res, w', this')"
  shows "params this' = params this \<and> isParallelSafe this' = isParallelSafe this"
  using assms setup_preserves [of w this]
  unfolding TemplateCompiler_syntax_def
  by (cases "TemplateCompiler_setup w this") (auto split: sum.splits)

lemma stripBom_bom: "stripBom (bom @ t) = t"
  by (simp add: stripBom_def bom_def)

lemma registerPlugins_Inr:
  assumes "registerPlugins syn pl = Inr (n, syn')"
  shows "n = length (case ast pl of None \<Rightarrow> [] | Some ps \<Rightarrow> ps)
    \<and> syn' = syn \<lparr> internals := (internals syn)
          \<lparr> registered := registered (internals syn)
               @ map (Pair ''ast'') (case ast pl of None \<Rightarrow> [] | Some ps \<Rightarrow> ps) \<rparr> \<rparr>"
proof (cases "ast pl")
  case None
  with assms show ?thesis by (simp add: registerPlugins_def)
next
  case (Some ps)
  with assms have "registerPlugins_loop syn ps 0 = Inr (n, syn')"
    by (simp add: registerPlugins_def)
  from registerPlugins_loop_Inr [OF this] Some show ?thesis by simp
qed

text \<open>
  A second call of the memoized \<^verbatim>\<open>setup\<close> returns the cached result and changes
  nothing, so the reads of \<^verbatim>\<open>this.syntax\<close> within one method all see the same compiler.
\<close>

lemma setup_memoized:
  assumes "TemplateCompiler_setup w this = (Inr r, w', this')"
  shows "TemplateCompiler_setup w' this' = (Inr r, w', this')"
proof (cases "setup_memo this")
  case None
  from setup_Inr [OF None assms] have "setup_memo this' = Some r"
    by auto
  then show ?thesis
    by (simp add: TemplateCompiler_setup_def)
next
  case (Some r0)
  with assms show ?thesis
    by (simp add: TemplateCompiler_setup_def)
qed

text \<open>
  The body of \<^verbatim>\<open>setup\<close> adds to \<^verbatim>\<open>userPluginsCount\<close>: on an instance whose counter is not
  0 (an earlier \<^verbatim>\<open>setup\<close> threw after the registration) the count starts from there.
\<close>

lemma setup_count_accumulates:
  assumes "setup_memo this = None" and "TemplateCompiler_setup w this = (Inr r, w', this')"
  shows "userPluginsCount this' =
     userPluginsCount this
     + length (case ast (params_plugins (params this)) of None \<Rightarrow> [] | Some ps \<Rightarrow> ps)
     + (case resolver (params this) of None \<Rightarrow> 0 | Some rs \<Rightarrow> 1)"
  using setup_Inr [OF assms]
  by (elim exE conjE) (frule registerPlugins_Inr, simp)

lemma cacheKey_of_bytes:
  assumes "fst (cacheKey w (TemplateCompiler p)) = Inr k" and "files w (compilerPath p) = Some bytes"
  shows "k = md5hex (stringify_syntax (md5hex (utf8_decode bytes)))"
proof -
  let ?tc = "TemplateCompiler p :: ('a, 'b) TemplateCompiler"
  from assms(1) obtain sx w' this' where s: "TemplateCompiler_setup w ?tc = (Inr (sx, k), w', this')"
    by (cases "TemplateCompiler_setup w ?tc") (auto simp: cacheKey_def split: sum.splits)
  have fresh: "setup_memo ?tc = None" "params ?tc = p"
    by (simp_all add: TemplateCompiler_def)
  from setup_Inr [OF fresh(1) s] fresh(2) obtain syn0 n syn1 syn2 where
    load: "fst (loadGlimmerSyntax w (compilerPath p)) = Inr syn0"
    and reg: "registerPlugins syn0 (params_plugins p) = Inr (n, syn1)"
    and res: "case resolver p of
        None \<Rightarrow> syn2 = syn1
      | Some rs \<Rightarrow> (\<exists>pl. astTransformer rs = Inr pl \<and> registerPlugin syn1 ''ast'' pl = Inr syn2)"
    and env: "initializeEmberENV syn2 (EmberENV p) = Inr sx"
    and key: "k = md5hex (stringify_syntax (s_cacheKey sx))"
    by auto
  from loadGlimmerSyntax_Inr [OF load] assms(2) have k0: "s_cacheKey syn0 = md5hex (utf8_decode bytes)"
    by auto
  from registerPlugins_Inr [OF reg] have k1: "s_cacheKey syn1 = s_cacheKey syn0"
    by simp
  have k2: "s_cacheKey syn2 = s_cacheKey syn1"
  proof (cases "resolver p")
    case None
    with res show ?thesis by simp
  next
    case (Some rs)
    with res obtain pl where "registerPlugin syn1 ''ast'' pl = Inr syn2"
      by auto
    from registerPlugin_Inr [OF this] show ?thesis by simp
  qed
  from initializeEmberENV_same [OF env] have "s_cacheKey sx = s_cacheKey syn2"
    by simp
  with key k0 k1 k2 show ?thesis by simp
qed

lemma has_extension_iff: "has_extension p ext = (\<exists>base. p = base @ ''.'' @ ext)"
proof
  assume "has_extension p ext"
  then have "p = take (length p - (length ext + 1)) p @ ''.'' @ ext"
    unfolding has_extension_def by (metis append_take_drop_id)
  then show "\<exists>base. p = base @ ''.'' @ ext" ..
next
  assume "\<exists>base. p = base @ ''.'' @ ext"
  then show "has_extension p ext"
    by (auto simp: has_extension_def)
qed

lemma precompile_preserves:
  "isParallelSafe (snd (snd (precompile w this m s))) = isParallelSafe this"
proof -
  obtain res w' this' where sx: "TemplateCompiler_syntax w this = (res, w', this')"
    by (cases "TemplateCompiler_syntax w this")
  from syntax_preserves [OF sx] sx show ?thesis
    by (auto simp: precompile_def split: sum.splits option.splits)
qed

subsection \<open>Evaluating the digest\<close>

lemma upt_0_num: "[0..<numeral n] = 0 # [Suc 0..<numeral n]"
  by (rule upt_conv_Cons) simp

lemma upt_Suc0_num:
  "[Suc 0..<numeral n] = (if Suc 0 < numeral n then Suc 0 # [2..<numeral n] else [])"
  by (subst upt_rec) (simp add: numeral_2_eq_2)

lemma replicate_num: "replicate (numeral k) x = x # replicate (pred_numeral k) x"
  by (simp add: numeral_eq_Suc)

lemma chunks_num: "chunks (numeral k) ws = take 16 ws # chunks (pred_numeral k) (drop 16 ws)"
  by (simp add: numeral_eq_Suc)

lemmas md5_eval =
  md5hex_def md5_def md5_pad_def Let_def le_bytes_def replicate_num chunks_num
  md5_block_def md5_F_def md5_g_def md5_K_def md5_S_def rotl32_def add32_def not32_def
  upt_0_num upt_Suc0_num hex_byte_def hex_digit_def

text \<open>Two digests of the test suite of RFC 1321.\<close>

lemma md5hex_empty: "md5hex [] = ''d41d8cd98f00b204e9800998ecf8427e''"
  by (simp add: md5_eval)

lemma md5hex_abc: "md5hex ''abc'' = ''900150983cd24fb0d6963f7d28e17f72''"
  by (simp add: md5_eval)

text \<open>
  The digest is not injective, even on printable text: two texts of 72 letters and
  digits that differ in one character and have the same digest.
\<close>

lemma md5hex_collision:
  "md5hex ''TEXTCOLLBYfGiJUETHQ4hAcKSMd5zYpgqf1YRDhkmxHkhPWptrkoyz28wnI9V0aHeAuaKnak''
     = md5hex ''TEXTCOLLBYfGiJUETHQ4hEcKSMd5zYpgqf1YRDhkmxHkhPWptrkoyz28wnI9V0aHeAuaKnak''"
proof -
  have "md5hex ''TEXTCOLLBYfGiJUETHQ4hAcKSMd5zYpgqf1YRDhkmxHkhPWptrkoyz28wnI9V0aHeAuaKnak''
      = ''faad49866e9498fc1719f5289e7a0269''"
    by (simp add: md5_eval)
  moreover have "md5hex ''TEXTCOLLBYfGiJUETHQ4hEcKSMd5zYpgqf1YRDhkmxHkhPWptrkoyz28wnI9V0aHeAuaKnak''
      = ''faad49866e9498fc1719f5289e7a0269''"
    by (simp add: md5_eval)
  ultimately show ?thesis by simp
qed

subsection \<open>The sample bundles with an ill-formed byte\<close>

lemma decoded_FF: "utf8_decode bundle_FF = ''/*'' @ replacement @ ''*/'' @ sample_bundle"
  by (simp add: utf8_decode_def bundle_FF_def sample_bundle_def utf8_lead_def replacement_def)

lemma decoded_FE: "utf8_decode bundle_FE = ''/*'' @ replacement @ ''*/'' @ sample_bundle"
  by (simp add: utf8_decode_def bundle_FE_def sample_bundle_def utf8_lead_def replacement_def)

lemma key_at_a:
  "fst (cacheKey two_bundles_world (TemplateCompiler (params_at ''/a/ember-template-compiler.js'')))
     = Inr (md5hex (stringify_syntax (md5hex (utf8_decode bundle_FF))))"
  by (simp add: cacheKey_def run_defs sample_defs two_bundles_world_def params_at_def decoded_FF)

lemma key_at_b:
  "fst (cacheKey two_bundles_world (TemplateCompiler (params_at ''/b/ember-template-compiler.js'')))
     = Inr (md5hex (stringify_syntax (md5hex (utf8_decode bundle_FE))))"
  by (simp add: cacheKey_def run_defs sample_defs two_bundles_world_def params_at_def decoded_FE)

lemma key_at_c:
  "fst (cacheKey two_bundles_world (TemplateCompiler (params_at ''/c/ember-template-compiler.js'')))
     = Inr (md5hex (stringify_syntax (md5hex (utf8_decode bundle_FF))))"
  by (simp add: cacheKey_def run_defs sample_defs two_bundles_world_def params_at_def decoded_FF)

section \<open>The claims\<close>

text \<open>
  C1. Whenever \<^verbatim>\<open>precompile\<close> returns, \<^verbatim>\<open>compile\<close> returns the text that consists, for
  each dependency in the order of the dependency sequence, of one import statement and
  one runtime-registration statement, each followed by a newline and both with the
  binding \<open>a\<close>\<^emph>\<open>i\<close> for the dependency at index \<^emph>\<open>i\<close> (counted from 0, written in decimal),
  and then of exactly one statement exporting the compiled template wrapped in
  \<^verbatim>\<open>Ember.HTMLBars.template(...)\<close>.
\<close>

theorem compile_emits_imports_in_order:
  assumes "fst (precompile w this m s) = Inr r"
  shows \<open>fst (compile w this m s) =
      Inr (concat (map (\<lambda>i.
               ''import a'' @ show_nat i @ '' from "'' @ path (dependencies r ! i) @ ''";''
               @ [CHR 0x0A]
               @ ''window.define('' @ [CHR 0x27] @ runtimeName (dependencies r ! i) @ [CHR 0x27]
               @ '', function(){ return a'' @ show_nat i @ ''});''
               @ [CHR 0x0A])
             [0..<length (dependencies r)])
           @ ''export default Ember.HTMLBars.template('' @ compiled r @ '');'')
    \<and> (\<forall>d. d < 10 \<longrightarrow> show_nat d = [''0123456789'' ! d])
    \<and> (\<forall>n d. 0 < n \<longrightarrow> d < 10 \<longrightarrow> show_nat (10 * n + d) = show_nat n @ [''0123456789'' ! d])\<close>
proof -
  obtain w' this' where "precompile w this m s = (Inr r, w', this')"
    using assms by (cases "precompile w this m s") auto
  then have "fst (compile w this m s) =
      Inr (join [CHR 0x0A]
        (concat (map (\<lambda>i. [import_line i (dependencies r ! i), define_line i (dependencies r ! i)])
                   [0..<length (dependencies r)])
         @ [export_line (compiled r)]))"
    by (simp add: compile_def compile_loop_acc)
  then have out: \<open>fst (compile w this m s) =
      Inr (concat (map (\<lambda>i.
               ''import a'' @ show_nat i @ '' from "'' @ path (dependencies r ! i) @ ''";''
               @ [CHR 0x0A]
               @ ''window.define('' @ [CHR 0x27] @ runtimeName (dependencies r ! i) @ [CHR 0x27]
               @ '', function(){ return a'' @ show_nat i @ ''});''
               @ [CHR 0x0A])
             [0..<length (dependencies r)])
           @ ''export default Ember.HTMLBars.template('' @ compiled r @ '');'')\<close>
    by (simp add: join_pairs import_line_def define_line_def export_line_def)
  from out show_nat_digit show_nat_step show ?thesis
    by blast
qed

theorem compile_emits_imports_in_order_witness:
  \<open>fst (precompile sample_world (TemplateCompiler (sample_params (Some sample_resolver) [''p1'']))
          ''greeting'' ''Hello'')
     = Inr \<lparr> compiled = ''[Hello]'',
             dependencies = [\<lparr> runtimeName = ''a'', path = ''./a'' \<rparr>,
                             \<lparr> runtimeName = ''b'', path = ''./b'' \<rparr>] \<rparr>
   \<and> fst (compile sample_world (TemplateCompiler (sample_params (Some sample_resolver) [''p1'']))
          ''greeting'' ''Hello'')
     = Inr (''import a0 from "./a";'' @ [CHR 0x0A]
            @ ''window.define('' @ [CHR 0x27] @ ''a'' @ [CHR 0x27] @ '', function(){ return a0});''
            @ [CHR 0x0A]
            @ ''import a1 from "./b";'' @ [CHR 0x0A]
            @ ''window.define('' @ [CHR 0x27] @ ''b'' @ [CHR 0x27] @ '', function(){ return a1});''
            @ [CHR 0x0A]
            @ ''export default Ember.HTMLBars.template([Hello]);'')
   \<and> show_nat 10 = ''10'' \<and> show_nat 127 = ''127''\<close>
proof -
  have h: "fst (precompile sample_world (TemplateCompiler (sample_params (Some sample_resolver) [''p1'']))
          ''greeting'' ''Hello'')
     = Inr \<lparr> compiled = ''[Hello]'',
             dependencies = [\<lparr> runtimeName = ''a'', path = ''./a'' \<rparr>,
                             \<lparr> runtimeName = ''b'', path = ''./b'' \<rparr>] \<rparr>"
    by (simp add: run_defs sample_defs stripBom_def bom_def)
  note t = compile_emits_imports_in_order [OF h]
  note dig = t [THEN conjunct2, THEN conjunct1, rule_format]
  note step = t [THEN conjunct2, THEN conjunct2, rule_format]
  have d: "show_nat 0 = ''0''" "show_nat 1 = ''1''" "show_nat (Suc 0) = ''1''" "show_nat 2 = ''2''"
    using dig [of 0] dig [of 1] dig [of 2] by simp_all
  have ten: "show_nat 10 = ''10''"
    using step [of 1 0] d by simp
  have twelve: "show_nat 12 = ''12''"
    using step [of 1 2] d by simp
  have big: "show_nat 127 = ''127''"
    using step [of 12 7] twelve by simp
  from t [THEN conjunct1] have "fst (compile sample_world (TemplateCompiler (sample_params (Some sample_resolver) [''p1'']))
          ''greeting'' ''Hello'')
     = Inr (''import a0 from \"./a\";'' @ [CHR 0x0A]
            @ ''window.define('' @ [CHR 0x27] @ ''a'' @ [CHR 0x27] @ '', function(){ return a0});''
            @ [CHR 0x0A]
            @ ''import a1 from \"./b\";'' @ [CHR 0x0A]
            @ ''window.define('' @ [CHR 0x27] @ ''b'' @ [CHR 0x27] @ '', function(){ return a1});''
            @ [CHR 0x0A]
            @ ''export default Ember.HTMLBars.template([Hello]);'')"
    by (simp add: upt_rec d)
  with h ten big show ?thesis
    by simp
qed

text \<open>
  C2 (amended). The \<^verbatim>\<open>cacheKey\<close> of a newly constructed core is the MD5 digest of the
  stable JSON of \<^verbatim>\<open>{syntax: d}\<close>, where \<open>d\<close> is the MD5 digest of the bundle file decoded as
  UTF-8. So two cores built from bundle files with identical bytes, at any paths, have
  equal keys, and so have two cores whose bundle files decode to the same text.
\<close>

theorem cacheKey_is_digest_of_decoded_text:
  assumes "fst (cacheKey w1 (TemplateCompiler p1)) = Inr k1"
    and "fst (cacheKey w2 (TemplateCompiler p2)) = Inr k2"
    and "files w1 (compilerPath p1) = Some b1"
    and "files w2 (compilerPath p2) = Some b2"
  shows "k1 = md5hex (stringify_syntax (md5hex (utf8_decode b1)))
    \<and> k2 = md5hex (stringify_syntax (md5hex (utf8_decode b2)))
    \<and> (b1 = b2 \<longrightarrow> k1 = k2)
    \<and> (utf8_decode b1 = utf8_decode b2 \<longrightarrow> k1 = k2)"
  using cacheKey_of_bytes [OF assms(1,3)] cacheKey_of_bytes [OF assms(2,4)]
  by simp

theorem cacheKey_is_digest_of_decoded_text_witness:
  "fst (cacheKey two_bundles_world (TemplateCompiler (params_at ''/a/ember-template-compiler.js'')))
     = Inr (md5hex (stringify_syntax (md5hex (utf8_decode bundle_FF))))
   \<and> fst (cacheKey two_bundles_world (TemplateCompiler (params_at ''/c/ember-template-compiler.js'')))
     = Inr (md5hex (stringify_syntax (md5hex (utf8_decode bundle_FF))))
   \<and> files two_bundles_world (compilerPath (params_at ''/a/ember-template-compiler.js'')) = Some bundle_FF
   \<and> files two_bundles_world (compilerPath (params_at ''/c/ember-template-compiler.js'')) = Some bundle_FF
   \<and> compilerPath (params_at ''/a/ember-template-compiler.js'') \<noteq> compilerPath (params_at ''/c/ember-template-compiler.js'')"
proof -
  have fa: "files two_bundles_world (compilerPath (params_at ''/a/ember-template-compiler.js'')) = Some bundle_FF"
    by (simp add: two_bundles_world_def params_at_def)
  have fc: "files two_bundles_world (compilerPath (params_at ''/c/ember-template-compiler.js'')) = Some bundle_FF"
    by (simp add: two_bundles_world_def params_at_def)
  have ne: "compilerPath (params_at ''/a/ember-template-compiler.js'') \<noteq> compilerPath (params_at ''/c/ember-template-compiler.js'')"
    by (simp add: params_at_def)
  show ?thesis
    using fa fc ne key_at_a key_at_c cacheKey_is_digest_of_decoded_text [OF key_at_a key_at_c fa fc]
    by simp
qed

text \<open>
  The claim as stated fails. The files at \<^verbatim>\<open>/a\<close> and \<^verbatim>\<open>/b\<close> hold the sample bundle, a
  script that loads, behind a comment; they differ in exactly one byte (FF against FE at
  index 2, inside the comment). Both decode to the same text, the engine runs the same
  script, and both cores return the same \<^verbatim>\<open>cacheKey\<close>.
\<close>

theorem cacheKey_differing_bytes_counterexample:
  "files two_bundles_world ''/a/ember-template-compiler.js'' = Some bundle_FF
   \<and> files two_bundles_world ''/b/ember-template-compiler.js'' = Some bundle_FE
   \<and> bundle_FF \<noteq> bundle_FE
   \<and> take 2 bundle_FF = take 2 bundle_FE \<and> drop 3 bundle_FF = drop 3 bundle_FE
   \<and> bundle_FF ! 2 = CHR 0xFF \<and> bundle_FE ! 2 = CHR 0xFE
   \<and> utf8_decode bundle_FF = ''/*'' @ [CHR 0xEF, CHR 0xBF, CHR 0xBD] @ ''*/'' @ sample_bundle
   \<and> utf8_decode bundle_FE = ''/*'' @ [CHR 0xEF, CHR 0xBF, CHR 0xBD] @ ''*/'' @ sample_bundle
   \<and> fst (cacheKey two_bundles_world (TemplateCompiler (params_at ''/a/ember-template-compiler.js'')))
       = Inr (md5hex (stringify_syntax (md5hex
               (''/*'' @ [CHR 0xEF, CHR 0xBF, CHR 0xBD] @ ''*/'' @ sample_bundle))))
   \<and> fst (cacheKey two_bundles_world (TemplateCompiler (params_at ''/b/ember-template-compiler.js'')))
       = Inr (md5hex (stringify_syntax (md5hex
               (''/*'' @ [CHR 0xEF, CHR 0xBF, CHR 0xBD] @ ''*/'' @ sample_bundle))))"
proof -
  have files: "files two_bundles_world ''/a/ember-template-compiler.js'' = Some bundle_FF"
    "files two_bundles_world ''/b/ember-template-compiler.js'' = Some bundle_FE"
    by (simp_all add: two_bundles_world_def)
  have bytes: "bundle_FF \<noteq> bundle_FE"
    "take 2 bundle_FF = take 2 bundle_FE" "drop 3 bundle_FF = drop 3 bundle_FE"
    "bundle_FF ! 2 = CHR 0xFF" "bundle_FE ! 2 = CHR 0xFE"
    by (simp_all add: bundle_FF_def bundle_FE_def)
  have dec: "utf8_decode bundle_FF = ''/*'' @ [CHR 0xEF, CHR 0xBF, CHR 0xBD] @ ''*/'' @ sample_bundle"
    "utf8_decode bundle_FE = ''/*'' @ [CHR 0xEF, CHR 0xBF, CHR 0xBD] @ ''*/'' @ sample_bundle"
    using decoded_FF decoded_FE by (simp_all add: replacement_def)
  have ka: "fst (cacheKey two_bundles_world (TemplateCompiler (params_at ''/a/ember-template-compiler.js'')))
       = Inr (md5hex (stringify_syntax (md5hex
               (''/*'' @ [CHR 0xEF, CHR 0xBF, CHR 0xBD] @ ''*/'' @ sample_bundle))))"
    by (simp only: key_at_a dec)
  have kb: "fst (cacheKey two_bundles_world (TemplateCompiler (params_at ''/b/ember-template-compiler.js'')))
       = Inr (md5hex (stringify_syntax (md5hex
               (''/*'' @ [CHR 0xEF, CHR 0xBF, CHR 0xBD] @ ''*/'' @ sample_bundle))))"
    by (simp only: key_at_b dec)
  from files bytes dec ka kb show ?thesis by simp
qed

text \<open>
  C3. Once the extracted compiler is available and its default options for
  \<^verbatim>\<open>{contents, moduleName}\<close> contain an AST-plugin list \<open>a\<close>, \<^verbatim>\<open>applyTransforms\<close>
  preprocesses the contents with that list cut down to its first \<^verbatim>\<open>userPluginsCount\<close>
  entries and returns the printed syntax tree (or the exception of the preprocessor or of
  the printer). With a count of 2 and a list of length 5 the list passed on consists of the
  first two plugins.
\<close>

theorem applyTransforms_runs_user_plugins_only:
  assumes "fst (TemplateCompiler_syntax w this) = Inr sx"
    and "s_defaultOptions sx = Some dflt"
    and "dflt (internals sx) \<lparr> contents = s, moduleName = m, plugins = None \<rparr> = Inr opts"
    and "plugins opts = Some pl"
    and "ast pl = Some a"
    and "n = userPluginsCount (snd (snd (TemplateCompiler_syntax w this)))"
  shows "fst (applyTransforms w this m s) =
      (case call (s_preprocess sx)
              (\<lambda>f. f (internals sx) s (opts \<lparr> plugins := Some (pl \<lparr> ast := Some (take n a) \<rparr>) \<rparr>)) of
         Inl e \<Rightarrow> Inl e
       | Inr tree \<Rightarrow> call (s_print sx) (\<lambda>f. f (internals sx) tree))
    \<and> (n = 2 \<longrightarrow> length a = 5 \<longrightarrow> take n a = [a ! 0, a ! 1])"
proof -
  obtain w' this' where sx: "TemplateCompiler_syntax w this = (Inr sx, w', this')"
    using assms(1) by (cases "TemplateCompiler_syntax w this") auto
  with assms(6) have n: "userPluginsCount this' = n"
    by simp
  have "slice_plugins n opts = opts \<lparr> plugins := Some (pl \<lparr> ast := Some (take n a) \<rparr>) \<rparr>"
    using assms(4,5) by (simp add: slice_plugins_def)
  then have first: "fst (applyTransforms w this m s) =
      (case call (s_preprocess sx)
              (\<lambda>f. f (internals sx) s (opts \<lparr> plugins := Some (pl \<lparr> ast := Some (take n a) \<rparr>) \<rparr>)) of
         Inl e \<Rightarrow> Inl e
       | Inr tree \<Rightarrow> call (s_print sx) (\<lambda>f. f (internals sx) tree))"
    using sx n assms(2,3)
    by (simp add: applyTransforms_def call_def Let_def split: sum.splits option.splits)
  have "take 2 a = [a ! 0, a ! 1]" if "length a = 5"
    using that by (simp add: take_Suc_conv_app_nth numeral_2_eq_2)
  with first show ?thesis by simp
qed

theorem applyTransforms_runs_user_plugins_only_witness:
  "fst (TemplateCompiler_syntax sample_world (TemplateCompiler (sample_params (Some sample_resolver) [''p1''])))
     = Inr (sample_extracted [(''ast'', ''p1''), (''ast'', ''resolver-plugin'')])
   \<and> userPluginsCount (snd (snd (TemplateCompiler_syntax sample_world
         (TemplateCompiler (sample_params (Some sample_resolver) [''p1'']))))) = 2
   \<and> sample_defaultOptions (internals (sample_extracted [(''ast'', ''p1''), (''ast'', ''resolver-plugin'')]))
        \<lparr> contents = ''Hello'', moduleName = ''greeting'', plugins = None \<rparr>
     = Inr \<lparr> contents = ''Hello'', moduleName = ''greeting'',
             plugins = Some \<lparr> ast = Some [''p1'', ''resolver-plugin'', ''builtin-1'', ''builtin-2'', ''builtin-3''] \<rparr> \<rparr>
   \<and> fst (applyTransforms sample_world (TemplateCompiler (sample_params (Some sample_resolver) [''p1'']))
         ''greeting'' ''Hello'')
     = Inr ''<p1><resolver-plugin>Hello''"
proof -
  let ?sx = "sample_extracted [(''ast'', ''p1''), (''ast'', ''resolver-plugin'')]"
  let ?tc = "TemplateCompiler (sample_params (Some sample_resolver) [''p1'']) :: (string, string) TemplateCompiler"
  let ?a = "[''p1'', ''resolver-plugin'', ''builtin-1'', ''builtin-2'', ''builtin-3'']"
  have a: "fst (TemplateCompiler_syntax sample_world ?tc) = Inr ?sx"
    by (simp add: run_defs sample_defs sample_extracted_def)
  have b: "s_defaultOptions ?sx = Some sample_defaultOptions"
    by (simp add: sample_extracted_def)
  have c: "sample_defaultOptions (internals ?sx) \<lparr> contents = ''Hello'', moduleName = ''greeting'', plugins = None \<rparr>
     = Inr \<lparr> contents = ''Hello'', moduleName = ''greeting'', plugins = Some \<lparr> ast = Some ?a \<rparr> \<rparr>"
    by (simp add: sample_defaultOptions_def sample_extracted_def)
  have d: "plugins \<lparr> contents = ''Hello'', moduleName = ''greeting'', plugins = Some \<lparr> ast = Some ?a \<rparr> \<rparr>
     = Some \<lparr> ast = Some ?a \<rparr>"
    by simp
  have e: "ast \<lparr> ast = Some ?a \<rparr> = Some ?a"
    by simp
  have f: "2 = userPluginsCount (snd (snd (TemplateCompiler_syntax sample_world ?tc)))"
    by (simp add: run_defs sample_defs)
  show ?thesis
    using a c f applyTransforms_runs_user_plugins_only [OF a b c d e f]
    by (simp add: sample_extracted_def call_def sample_preprocess_def sample_print_def)
qed






text \<open>
  C6. Once the extracted compiler is available, \<^verbatim>\<open>precompile\<close> calls its precompile entry
  point on the contents stripped of a leading byte-order mark (U+FEFF, the bytes EF BB BF;
  contents that do not start with it are passed unchanged), with the options object
  \<^verbatim>\<open>{contents, moduleName}\<close>; an exception of the entry point is propagated, and otherwise
  the compiled result is the value the entry point returned, paired with the dependencies.
\<close>

theorem precompile_strips_bom:
  assumes "fst (TemplateCompiler_syntax w this) = Inr sx" and "s_precompile sx = Some f"
  shows "fst (precompile w this m s) =
    (case f (internals sx) (if take 3 s = [CHR 0xEF, CHR 0xBB, CHR 0xBF] then drop 3 s else s)
            \<lparr> contents = s, moduleName = m, plugins = None \<rparr> of
       Inl e \<Rightarrow> Inl e
     | Inr c \<Rightarrow>
         (case resolver (params this) of
            None \<Rightarrow> Inr \<lparr> compiled = c, dependencies = [] \<rparr>
          | Some rs \<Rightarrow>
              (case dependenciesOf rs m of
                 Inl e \<Rightarrow> Inl e
               | Inr deps \<Rightarrow> Inr \<lparr> compiled = c, dependencies = deps \<rparr>)))
    \<and> stripBom ([CHR 0xEF, CHR 0xBB, CHR 0xBF] @ s) = s
    \<and> (take 3 s \<noteq> [CHR 0xEF, CHR 0xBB, CHR 0xBF] \<longrightarrow> stripBom s = s)"
proof -
  obtain w' this' where sx: "TemplateCompiler_syntax w this = (Inr sx, w', this')"
    using assms(1) by (cases "TemplateCompiler_syntax w this") auto
  from syntax_preserves [OF sx] have p: "params this' = params this"
    by simp
  have "fst (precompile w this m s) =
    (case f (internals sx) (if take 3 s = [CHR 0xEF, CHR 0xBB, CHR 0xBF] then drop 3 s else s)
            \<lparr> contents = s, moduleName = m, plugins = None \<rparr> of
       Inl e \<Rightarrow> Inl e
     | Inr c \<Rightarrow>
         (case resolver (params this) of
            None \<Rightarrow> Inr \<lparr> compiled = c, dependencies = [] \<rparr>
          | Some rs \<Rightarrow>
              (case dependenciesOf rs m of
                 Inl e \<Rightarrow> Inl e
               | Inr deps \<Rightarrow> Inr \<lparr> compiled = c, dependencies = deps \<rparr>)))"
    using sx p assms(2)
    by (simp add: precompile_def call_def stripBom_def bom_def split: sum.splits option.splits)
  then show ?thesis
    by (simp add: stripBom_def bom_def)
qed

theorem precompile_strips_bom_witness:
  "fst (TemplateCompiler_syntax sample_world (TemplateCompiler (sample_params None [])))
     = Inr (sample_extracted [])
   \<and> s_precompile (sample_extracted []) = Some sample_precompile
   \<and> fst (precompile sample_world (TemplateCompiler (sample_params None [])) ''greeting''
         ([CHR 0xEF, CHR 0xBB, CHR 0xBF] @ ''Hello''))
     = Inr \<lparr> compiled = ''[Hello]'', dependencies = [] \<rparr>
   \<and> stripBom ([CHR 0xEF, CHR 0xBB, CHR 0xBF] @ ''Hello'') = ''Hello''
   \<and> stripBom ''Hello'' = ''Hello''"
proof -
  have a: "fst (TemplateCompiler_syntax sample_world (TemplateCompiler (sample_params None [])))
     = Inr (sample_extracted [])"
    by (simp add: run_defs sample_defs sample_extracted_def)
  have b: "s_precompile (sample_extracted []) = Some sample_precompile"
    by (simp add: sample_extracted_def)
  show ?thesis
    using a b precompile_strips_bom [OF a b, of "''greeting''" "[CHR 0xEF, CHR 0xBB, CHR 0xBF] @ ''Hello''"]
      precompile_strips_bom [OF a b, of "''greeting''" "''Hello''"]
    by (simp add: sample_precompile_def TemplateCompiler_def sample_params_def)
qed

text \<open>
  C7. When the first \<^verbatim>\<open>setup\<close> of a newly constructed core returns, the registry of
  the extracted compiler has received the host-supplied AST plugins in their order,
  followed by the plugin of the resolver when there is a resolver, and nothing else; and
  \<^verbatim>\<open>userPluginsCount\<close> is the number of host-supplied plugins, plus one when there is a
  resolver.
\<close>

theorem registration_order_and_count:
  assumes "fst (TemplateCompiler_setup w (TemplateCompiler p)) = Inr (sx, key)"
  shows "userPluginsCount (snd (snd (TemplateCompiler_setup w (TemplateCompiler p))))
       = length (case ast (params_plugins p) of None \<Rightarrow> [] | Some ps \<Rightarrow> ps)
         + (case resolver p of None \<Rightarrow> 0 | Some rs \<Rightarrow> 1)
    \<and> registered (internals sx)
       = map (Pair ''ast'') (case ast (params_plugins p) of None \<Rightarrow> [] | Some ps \<Rightarrow> ps)
         @ (case resolver p of
              None \<Rightarrow> []
            | Some rs \<Rightarrow> (case astTransformer rs of Inl e \<Rightarrow> [] | Inr plugin \<Rightarrow> [(''ast'', plugin)]))"
proof -
  let ?tc = "TemplateCompiler p :: ('a, 'b) TemplateCompiler"
  let ?host = "case ast (params_plugins p) of None \<Rightarrow> [] | Some ps \<Rightarrow> ps"
  obtain w' this' where s: "TemplateCompiler_setup w ?tc = (Inr (sx, key), w', this')"
    using assms by (cases "TemplateCompiler_setup w ?tc") auto
  have fresh: "setup_memo ?tc = None" "params ?tc = p" "userPluginsCount ?tc = 0"
    by (simp_all add: TemplateCompiler_def)
  from setup_Inr [OF fresh(1) s] fresh(2,3) obtain syn0 n syn1 syn2 where
    load: "fst (loadGlimmerSyntax w (compilerPath p)) = Inr syn0"
    and reg: "registerPlugins syn0 (params_plugins p) = Inr (n, syn1)"
    and res: "case resolver p of
        None \<Rightarrow> syn2 = syn1
      | Some rs \<Rightarrow> (\<exists>pl. astTransformer rs = Inr pl \<and> registerPlugin syn1 ''ast'' pl = Inr syn2)"
    and env: "initializeEmberENV syn2 (EmberENV p) = Inr sx"
    and cnt: "userPluginsCount this' = n + (case resolver p of None \<Rightarrow> 0 | Some rs \<Rightarrow> 1)"
    by auto
  from loadGlimmerSyntax_Inr [OF load] have r0: "registered (internals syn0) = []"
    by auto
  from registerPlugins_Inr [OF reg] r0 have n: "n = length ?host"
    and r1: "registered (internals syn1) = map (Pair ''ast'') ?host"
    by simp_all
  from initializeEmberENV_same [OF env] have r3: "registered (internals sx) = registered (internals syn2)"
    by simp
  have r2: "registered (internals syn2) = map (Pair ''ast'') ?host
         @ (case resolver p of
              None \<Rightarrow> []
            | Some rs \<Rightarrow> (case astTransformer rs of Inl e \<Rightarrow> [] | Inr plugin \<Rightarrow> [(''ast'', plugin)]))"
  proof (cases "resolver p")
    case None
    with res r1 show ?thesis by simp
  next
    case (Some rs)
    with res obtain pl where pl: "astTransformer rs = Inr pl" and "registerPlugin syn1 ''ast'' pl = Inr syn2"
      by auto
    from registerPlugin_Inr [OF this(2)] r1 pl Some show ?thesis by simp
  qed
  from s cnt n r2 r3 show ?thesis by simp
qed

theorem registration_order_and_count_witness:
  "fst (TemplateCompiler_setup sample_world (TemplateCompiler (sample_params (Some sample_resolver) [''p1'', ''p2''])))
     = Inr (sample_extracted [(''ast'', ''p1''), (''ast'', ''p2''), (''ast'', ''resolver-plugin'')],
            md5hex (stringify_syntax (md5hex (utf8_decode sample_bundle))))
   \<and> userPluginsCount (snd (snd (TemplateCompiler_setup sample_world
         (TemplateCompiler (sample_params (Some sample_resolver) [''p1'', ''p2''])
            :: (string, string) TemplateCompiler)))) = 3
   \<and> registered (internals (sample_extracted [(''ast'', ''p1''), (''ast'', ''p2''), (''ast'', ''resolver-plugin'')]))
     = [(''ast'', ''p1''), (''ast'', ''p2''), (''ast'', ''resolver-plugin'')]"
proof -
  have a: "fst (TemplateCompiler_setup sample_world (TemplateCompiler (sample_params (Some sample_resolver) [''p1'', ''p2''])))
     = Inr (sample_extracted [(''ast'', ''p1''), (''ast'', ''p2''), (''ast'', ''resolver-plugin'')],
            md5hex (stringify_syntax (md5hex (utf8_decode sample_bundle))))"
    by (simp add: run_defs sample_defs sample_extracted_def)
  show ?thesis
    using a registration_order_and_count [OF a]
    by (simp add: sample_params_def sample_resolver_def)
qed

text \<open>
  C8 (amended). \<^verbatim>\<open>initializeEmberENV\<close> does nothing when the configuration is undefined
  (or otherwise falsy). For a configuration and an extracted compiler with its \<^verbatim>\<open>_Ember\<close>
  object, it returns with every entry of the configuration's \<^verbatim>\<open>FEATURES\<close> written into the
  feature-flag table and every other top-level entry, but not the \<^verbatim>\<open>FEATURES\<close> key,
  written into the environment table, in both cases except an entry under the key
  \<^verbatim>\<open>__proto__\<close>; the other entries of both tables are unchanged.
\<close>

theorem initializeEmberENV_copies:
  "(\<not> truthy env \<longrightarrow> initializeEmberENV syn env = Inr syn)
   \<and> (truthy env \<longrightarrow> Ember (internals syn) = Some e \<longrightarrow>
        initializeEmberENV syn env =
          Inr (syn \<lparr> internals := (internals syn)
                 \<lparr> Ember := Some (e \<lparr>
                      FEATURES := FEATURES e
                        ++ (map_of (entries (get env ''FEATURES'')) |` (- {''__proto__''})),
                      ENV := ENV e
                        ++ (map_of (entries env) |` (- {''FEATURES'', ''__proto__''})) \<rparr>) \<rparr> \<rparr>))"
proof (intro conjI impI)
  assume "\<not> truthy env"
  then show "initializeEmberENV syn env = Inr syn"
    by (simp add: initializeEmberENV_def)
next
  assume "truthy env" and "Ember (internals syn) = Some e"
  then show "initializeEmberENV syn env =
          Inr (syn \<lparr> internals := (internals syn)
                 \<lparr> Ember := Some (e \<lparr>
                      FEATURES := FEATURES e
                        ++ (map_of (entries (get env ''FEATURES'')) |` (- {''__proto__''})),
                      ENV := ENV e
                        ++ (map_of (entries env) |` (- {''FEATURES'', ''__proto__''})) \<rparr>) \<rparr> \<rparr>)"
    by (rule initializeEmberENV_tables [rotated])
qed

theorem initializeEmberENV_copies_witness:
  "truthy (JObj [(''FEATURES'', JObj [(''other'', JNum 2)]), (''mode'', JStr [120]), (''debug'', JNum 0)])
   \<and> Ember (internals (sample_extracted [])) =
        Some \<lparr> FEATURES = [''flag'' \<mapsto> JBool True], ENV = [''debug'' \<mapsto> JNum 1] \<rparr>
   \<and> (case initializeEmberENV (sample_extracted [])
              (JObj [(''FEATURES'', JObj [(''other'', JNum 2)]), (''mode'', JStr [120]), (''debug'', JNum 0)]) of
         Inl err \<Rightarrow> False
       | Inr syn' \<Rightarrow>
           (case Ember (internals syn') of
              None \<Rightarrow> False
            | Some e' \<Rightarrow>
                FEATURES e' ''flag'' = Some (JBool True) \<and> FEATURES e' ''other'' = Some (JNum 2)
                \<and> FEATURES e' ''mode'' = None
                \<and> ENV e' ''debug'' = Some (JNum 0) \<and> ENV e' ''mode'' = Some (JStr [120])
                \<and> ENV e' ''FEATURES'' = None \<and> ENV e' ''other'' = None))
   \<and> \<not> truthy JUndefined
   \<and> initializeEmberENV (sample_extracted []) JUndefined = Inr (sample_extracted [])"
proof -
  let ?env = "JObj [(''FEATURES'', JObj [(''other'', JNum 2)]), (''mode'', JStr [120]), (''debug'', JNum 0)]"
  let ?e = "\<lparr> FEATURES = [''flag'' \<mapsto> JBool True], ENV = [''debug'' \<mapsto> JNum 1] \<rparr>"
  have a: "truthy ?env" by simp
  have b: "Ember (internals (sample_extracted [])) = Some ?e"
    by (simp add: sample_extracted_def)
  have c: "\<not> truthy JUndefined" by simp
  show ?thesis
    using a b c
      initializeEmberENV_copies [of ?env "sample_extracted []" ?e]
      initializeEmberENV_copies [of JUndefined "sample_extracted []" ?e]
    by (simp add: get_def restrict_map_def map_add_def)
qed

text \<open>
  The claim as stated fails: the configuration has the own top-level key \<^verbatim>\<open>__proto__\<close>,
  which is not the \<^verbatim>\<open>FEATURES\<close> key, and the environment table gets no entry for it.
\<close>

theorem initializeEmberENV_proto_counterexample:
  "truthy (JObj [(''__proto__'', JNum 1)])
   \<and> keys (JObj [(''__proto__'', JNum 1)]) = [''__proto__'']
   \<and> get (JObj [(''__proto__'', JNum 1)]) ''__proto__'' = JNum 1
   \<and> Ember (internals (sample_extracted [])) =
        Some \<lparr> FEATURES = [''flag'' \<mapsto> JBool True], ENV = [''debug'' \<mapsto> JNum 1] \<rparr>
   \<and> initializeEmberENV (sample_extracted []) (JObj [(''__proto__'', JNum 1)])
        = Inr (sample_extracted [])"
  by (simp add: initializeEmberENV_def keys_def get_def set_ENV_def table_set_def sample_extracted_def)

text \<open>
  C9. The filter is set up for the extensions \<^verbatim>\<open>hbs\<close> and \<^verbatim>\<open>handlebars\<close> and processes
  exactly the files whose path ends in one of them. For such a file, stage 1 writes the
  output under the input path and stage 3 under the path with the extension replaced by
  \<^verbatim>\<open>js\<close>: \<^verbatim>\<open>templates/foo.hbs\<close> yields \<^verbatim>\<open>templates/foo.hbs\<close> and
  \<^verbatim>\<open>templates/foo.js\<close>.
\<close>

theorem stage_output_paths:
  "output_path (TemplateCompileTree_options Stage1) (base @ ''.hbs'') = Some (base @ ''.hbs'')
   \<and> output_path (TemplateCompileTree_options Stage1) (base @ ''.handlebars'') = Some (base @ ''.handlebars'')
   \<and> output_path (TemplateCompileTree_options Stage3) (base @ ''.hbs'') = Some (base @ ''.js'')
   \<and> output_path (TemplateCompileTree_options Stage3) (base @ ''.handlebars'') = Some (base @ ''.js'')
   \<and> (output_path (TemplateCompileTree_options st) p \<noteq> None)
       = (\<exists>b. p = b @ ''.hbs'' \<or> p = b @ ''.handlebars'')
   \<and> output_path (TemplateCompileTree_options Stage1) ''templates/foo.hbs'' = Some ''templates/foo.hbs''
   \<and> output_path (TemplateCompileTree_options Stage3) ''templates/foo.hbs'' = Some ''templates/foo.js''"
proof -
  have opts: "extensions (TemplateCompileTree_options s) = [''hbs'', ''handlebars'']"
    "targetExtension (TemplateCompileTree_options Stage1) = None"
    "targetExtension (TemplateCompileTree_options Stage3) = Some ''js''" for s
    by (simp_all add: TemplateCompileTree_options_def stage_number_def)
  have hbs: "has_extension (b @ ''.hbs'') ''hbs''" for b
    by (simp add: has_extension_def)
  have hb: "has_extension (b @ ''.handlebars'') ''handlebars''" for b
    by (simp add: has_extension_def)
  have nhbs: "\<not> has_extension (b @ ''.handlebars'') ''hbs''" for b
    by (simp add: has_extension_def)
  have general: "output_path (TemplateCompileTree_options Stage1) (b @ ''.hbs'') = Some (b @ ''.hbs'')"
    "output_path (TemplateCompileTree_options Stage1) (b @ ''.handlebars'') = Some (b @ ''.handlebars'')"
    "output_path (TemplateCompileTree_options Stage3) (b @ ''.hbs'') = Some (b @ ''.js'')"
    "output_path (TemplateCompileTree_options Stage3) (b @ ''.handlebars'') = Some (b @ ''.js'')" for b
    using hbs [of b] hb [of b] nhbs [of b]
    by (simp_all add: output_path_def opts)
  have only: "(output_path (TemplateCompileTree_options st) p \<noteq> None)
       = (\<exists>b. p = b @ ''.hbs'' \<or> p = b @ ''.handlebars'')"
    by (auto simp: output_path_def opts has_extension_iff split: option.splits)
  from general [of base] general(1) [of "''templates/foo''"] general(3) [of "''templates/foo''"] only
  show ?thesis by simp
qed

text \<open>
  C10. A newly constructed \<^verbatim>\<open>TemplateCompiler\<close> has \<^verbatim>\<open>isParallelSafe\<close> false; none of
  its operations changes the flag, so it is true only after an assignment from outside;
  and the fragment that the serializer emits contains, after the statement that
  constructs the compiler, the assignment of an explicit \<^verbatim>\<open>true\<close> or \<^verbatim>\<open>false\<close> to
  \<^verbatim>\<open>templateCompiler.isParallelSafe\<close>.
\<close>

theorem isParallelSafe_false_until_assigned:
  "isParallelSafe (TemplateCompiler p) = False
   \<and> isParallelSafe (snd (snd (TemplateCompiler_setup w this))) = isParallelSafe this
   \<and> isParallelSafe (snd (snd (TemplateCompiler_syntax w this))) = isParallelSafe this
   \<and> isParallelSafe (snd (snd (cacheKey w this))) = isParallelSafe this
   \<and> isParallelSafe (snd (snd (precompile w this m s))) = isParallelSafe this
   \<and> isParallelSafe (snd (snd (compile w this m s))) = isParallelSafe this
   \<and> isParallelSafe (snd (snd (applyTransforms w this m s))) = isParallelSafe this
   \<and> isParallelSafe (snd (snd (parse w this m s))) = isParallelSafe this
   \<and> PortableTemplateCompiler_template here_escaped portable_json b
       = template_head here_escaped portable_json
         @ ''  templateCompiler.isParallelSafe = '' @ (if b then ''true'' else ''false'') @ '';''
         @ [CHR 0x0A] @ template_tail"
proof -
  obtain r1 w1 t1 where su: "TemplateCompiler_setup w this = (r1, w1, t1)"
    by (cases "TemplateCompiler_setup w this")
  obtain r2 w2 t2 where sx: "TemplateCompiler_syntax w this = (r2, w2, t2)"
    by (cases "TemplateCompiler_syntax w this")
  obtain r3 w3 t3 where pc: "precompile w this m s = (r3, w3, t3)"
    by (cases "precompile w this m s")
  have a: "isParallelSafe (TemplateCompiler p) = False"
    by (simp add: TemplateCompiler_def)
  have b: "isParallelSafe (snd (snd (TemplateCompiler_setup w this))) = isParallelSafe this"
    using setup_preserves [OF su] su by simp
  have c: "isParallelSafe (snd (snd (TemplateCompiler_syntax w this))) = isParallelSafe this"
    using syntax_preserves [OF sx] sx by simp
  have d: "isParallelSafe (snd (snd (cacheKey w this))) = isParallelSafe this"
    using setup_preserves [OF su] su by (auto simp: cacheKey_def split: sum.splits)
  have e: "isParallelSafe (snd (snd (precompile w this m s))) = isParallelSafe this"
    by (rule precompile_preserves)
  have f: "isParallelSafe (snd (snd (compile w this m s))) = isParallelSafe this"
    using e pc by (auto simp: compile_def Let_def split: sum.splits)
  have g: "isParallelSafe (snd (snd (applyTransforms w this m s))) = isParallelSafe this"
    using syntax_preserves [OF sx] sx
    by (auto simp: applyTransforms_def Let_def split: sum.splits)
  have h: "isParallelSafe (snd (snd (parse w this m s))) = isParallelSafe this"
    using syntax_preserves [OF sx] sx
    by (auto simp: parse_def Let_def split: sum.splits)
  have i: "PortableTemplateCompiler_template here_escaped portable_json b
       = template_head here_escaped portable_json
         @ ''  templateCompiler.isParallelSafe = '' @ (if b then ''true'' else ''false'') @ '';''
         @ [CHR 0x0A] @ template_tail"
    by (simp add: PortableTemplateCompiler_template_def template_flag_def show_bool_def)
  from a b c d e f g h i show ?thesis by blast
qed

end
